theory Spec2Isabelle
  imports Complex_Main "HOL-Library.Multiset" "HOL-Library.Log_Nat"
begin

section \<open>JavaScript values used by airqualitydata.js\<close>

text \<open>
  The two exceptions the modelled code can raise. A read of an identifier that no
  enclosing scope binds raises ReferenceError; a property read on undefined or null, a
  call of something that is not a function, an assignment to a const binding and a
  for...of over a value that is not iterable raise TypeError.
\<close>

datatype js_error = ReferenceError | TypeError

text \<open>
  A JavaScript number: not-a-number, the two infinities, or a finite value. A finite
  number is a double (IEEE 754 binary64) and is modelled by the real number it denotes:
  an integer of magnitude below \<open>2^53\<close> times a power of two from \<open>2^-1074\<close> to
  \<open>2^971\<close>. The two zeros are one value here; the modelled code never tells them
  apart.
\<close>

datatype jsnum = NaN | NegInf | Fin real | PosInf

text \<open>
  Rounding of a real number to the nearest double, a tie going to the even significand,
  as every arithmetic operation, numeric literal and string conversion of the language
  does. \<open>exponentOf x\<close> is the integer part of the binary logarithm of a positive
  \<open>x\<close>. A double near \<open>x\<close> is a multiple of \<open>2 ^ ulpExponent x\<close>: the significand has
  53 bits, and below \<open>2^-1022\<close> the spacing stays at \<open>2^-1074\<close>. A result of
  magnitude \<open>2^1024\<close> or more is an infinity.
\<close>

definition exponentOf :: "real \<Rightarrow> int" where
  "exponentOf x = (if 1 \<le> x then bitlen \<lfloor>x\<rfloor> - 1 else - bitlen (\<lceil>1 / x\<rceil> - 1))"

definition scaleBy :: "real \<Rightarrow> int \<Rightarrow> real" where
  "scaleBy x e = (if 0 \<le> e then x * 2 ^ nat e else x / 2 ^ nat (- e))"

definition roundHalfEven :: "real \<Rightarrow> int" where
  "roundHalfEven q =
     (if q - of_int \<lfloor>q\<rfloor> < 1 / 2 then \<lfloor>q\<rfloor>
      else if 1 / 2 < q - of_int \<lfloor>q\<rfloor> then \<lfloor>q\<rfloor> + 1
      else if even \<lfloor>q\<rfloor> then \<lfloor>q\<rfloor> else \<lfloor>q\<rfloor> + 1)"

definition ulpExponent :: "real \<Rightarrow> int" where
  "ulpExponent x = max (exponentOf \<bar>x\<bar> - 52) (- 1074)"

definition mantissa :: "real \<Rightarrow> int" where
  "mantissa x = roundHalfEven (scaleBy \<bar>x\<bar> (- ulpExponent x))"

definition toDouble :: "real \<Rightarrow> jsnum" where
  "toDouble x =
     (if x = 0 then Fin 0
      else if 971 < ulpExponent x \<or> (ulpExponent x = 971 \<and> mantissa x = 9007199254740992)
      then (if x < 0 then NegInf else PosInf)
      else Fin (if x < 0 then - scaleBy (of_int (mantissa x)) (ulpExponent x)
                else scaleBy (of_int (mantissa x)) (ulpExponent x)))"

text \<open>The operator \<open><=\<close> on numbers: every comparison with NaN is false.\<close>

fun js_le :: "jsnum \<Rightarrow> jsnum \<Rightarrow> bool" where
  "js_le NaN _ = False"
| "js_le _ NaN = False"
| "js_le NegInf _ = True"
| "js_le (Fin a) NegInf = False"
| "js_le (Fin a) (Fin b) = (a \<le> b)"
| "js_le (Fin a) PosInf = True"
| "js_le PosInf PosInf = True"
| "js_le PosInf _ = False"

text \<open>The operator \<open>+\<close> on numbers: the exact sum of two finite numbers, rounded.\<close>

fun js_add :: "jsnum \<Rightarrow> jsnum \<Rightarrow> jsnum" where
  "js_add NaN _ = NaN"
| "js_add _ NaN = NaN"
| "js_add (Fin a) (Fin b) = toDouble (a + b)"
| "js_add PosInf NegInf = NaN"
| "js_add NegInf PosInf = NaN"
| "js_add PosInf _ = PosInf"
| "js_add _ PosInf = PosInf"
| "js_add NegInf _ = NegInf"
| "js_add _ NegInf = NegInf"

text \<open>
  Division of a number by a positive count (\<open>data.sum / data.count\<close>): the exact
  quotient of a finite number, rounded. The count is a whole number that the
  increments by one reach exactly.
\<close>

fun js_div_count :: "jsnum \<Rightarrow> nat \<Rightarrow> jsnum" where
  "js_div_count (Fin a) n = toDouble (a / real n)"
| "js_div_count x n = x"

text \<open>
  \<open>parseFloat(x.toFixed(1))\<close>. For a finite \<open>x\<close> of magnitude below \<open>10^21\<close>,
  \<open>toFixed(1)\<close> prints the integer \<open>n\<close> for which \<open>n / 10\<close> is closest to the
  magnitude of \<open>x\<close>, the larger one when two are equally close, with a dot before its
  last digit and the sign of \<open>x\<close> in front, and \<open>parseFloat\<close> reads that decimal
  back as the nearest double, negated under a minus sign. From \<open>10^21\<close> on, \<open>toFixed\<close> prints the number as
  \<open>toString\<close> does, which \<open>parseFloat\<close> reads back unchanged. NaN and the
  infinities are printed by name and read back.
\<close>

definition tenths :: "real \<Rightarrow> int" where
  "tenths x = \<lfloor>\<bar>x\<bar> * 10 + 1 / 2\<rfloor>"

fun js_neg :: "jsnum \<Rightarrow> jsnum" where
  "js_neg NaN = NaN"
| "js_neg NegInf = PosInf"
| "js_neg (Fin a) = Fin (- a)"
| "js_neg PosInf = NegInf"

fun toFixed1 :: "jsnum \<Rightarrow> jsnum" where
  "toFixed1 (Fin a) =
     (if 1000000000000000000000 \<le> \<bar>a\<bar> then Fin a
      else if a < 0 then js_neg (toDouble (of_int (tenths a) / 10))
      else toDouble (of_int (tenths a) / 10))"
| "toFixed1 x = x"

section \<open>Strings\<close>

text \<open>
  A string is a list of characters, one per code unit; the model covers the code units
  below 256. The white space of \<open>trim\<close> and \<open>parseInt\<close> in that range is tab, line
  feed, vertical tab, form feed, carriage return, space and the no-break space.
\<close>

definition isWhiteSpace :: "char \<Rightarrow> bool" where
  "isWhiteSpace c =
     (c = CHR 0x09 \<or> c = CHR 0x0A \<or> c = CHR 0x0B \<or> c = CHR 0x0C \<or> c = CHR 0x0D
      \<or> c = CHR 0x20 \<or> c = CHR 0xA0)"

definition trim :: "string \<Rightarrow> string" where
  "trim s = rev (dropWhile isWhiteSpace (rev (dropWhile isWhiteSpace s)))"

text \<open>The class \<open>\d\<close> of a regular expression: the ten ASCII digits.\<close>

definition isDigit :: "char \<Rightarrow> bool" where
  "isDigit c = (c \<in> set ''0123456789'')"

definition upperLetters :: string where
  "upperLetters = ''ABCDEFGHIJKLMNOPQRSTUVWXYZ''"

definition lowerLetters :: string where
  "lowerLetters = ''abcdefghijklmnopqrstuvwxyz''"

text \<open>
  Case conversion changes the ASCII letters. The other characters are left as they
  are: no character outside ASCII has one of the letters of the words and tokens the
  code compares with as its lower-case form.
\<close>

definition lowerChar :: "char \<Rightarrow> char" where
  "lowerChar c = (case map_of (zip upperLetters lowerLetters) c of None \<Rightarrow> c | Some d \<Rightarrow> d)"

definition upperChar :: "char \<Rightarrow> char" where
  "upperChar c = (case map_of (zip lowerLetters upperLetters) c of None \<Rightarrow> c | Some d \<Rightarrow> d)"

definition toLowerCase :: "string \<Rightarrow> string" where
  "toLowerCase s = map lowerChar s"

definition toUpperCase :: "string \<Rightarrow> string" where
  "toUpperCase s = map upperChar s"

text \<open>\<open>s.includes(pat)\<close>: \<open>pat\<close> occurs in \<open>s\<close> as a contiguous substring.\<close>

fun includes_str :: "string \<Rightarrow> string \<Rightarrow> bool" where
  "includes_str [] pat = (pat = [])"
| "includes_str (c # cs) pat = (take (length pat) (c # cs) = pat \<or> includes_str cs pat)"

text \<open>\<open>s.padStart(2, '0')\<close>.\<close>

definition padStart2 :: "string \<Rightarrow> string" where
  "padStart2 s = replicate (2 - length s) CHR ''0'' @ s"

text \<open>The value of a digit in a radix up to sixteen, when the character is one.\<close>

definition digitValue :: "char \<Rightarrow> nat option" where
  "digitValue c = map_of (zip ''0123456789abcdef'' [0 ..< 16] @ zip ''ABCDEF'' [10 ..< 16]) c"

definition isRadixDigit :: "nat \<Rightarrow> char \<Rightarrow> bool" where
  "isRadixDigit radix c = (case digitValue c of None \<Rightarrow> False | Some v \<Rightarrow> v < radix)"

definition radixNumber :: "nat \<Rightarrow> string \<Rightarrow> nat" where
  "radixNumber radix ds = foldl (\<lambda>n c. radix * n + (case digitValue c of None \<Rightarrow> 0 | Some v \<Rightarrow> v)) 0 ds"

text \<open>
  \<open>parseInt(s)\<close> with no radix argument: leading white space is skipped, a sign is
  read, a prefix \<open>0x\<close> or \<open>0X\<close> selects radix sixteen, and the longest run of digits
  is the value. \<open>None\<close> is NaN (no digit). The integer is exact; the code compares it
  with small integers only.
\<close>

definition parseInt :: "string \<Rightarrow> int option" where
  "parseInt s =
     (let t = dropWhile isWhiteSpace s;
          neg = (take 1 t = ''-'');
          u = (if take 1 t = ''-'' \<or> take 1 t = ''+'' then drop 1 t else t);
          hex = (take 2 u = ''0x'' \<or> take 2 u = ''0X'');
          radix = (if hex then 16 else 10);
          ds = takeWhile (isRadixDigit radix) (if hex then drop 2 u else u)
      in if ds = [] then None
         else Some (if neg then - int (radixNumber radix ds) else int (radixNumber radix ds)))"

text \<open>\<open>n.toString()\<close> for a non-negative integer.\<close>

fun toStringNat :: "nat \<Rightarrow> string" where
  "toStringNat n =
     (if n < 10 then [''0123456789'' ! n]
      else toStringNat (n div 10) @ [''0123456789'' ! (n mod 10)])"

declare toStringNat.simps [simp del]

text \<open>\<open>text.match(/(\d+)/)\<close>: the first maximal run of digits, when there is one.\<close>

definition matchDigits :: "string \<Rightarrow> string option" where
  "matchDigits s =
     (let r = dropWhile (\<lambda>c. \<not> isDigit c) s
      in if r = [] then None else Some (takeWhile isDigit r))"

text \<open>
  \<open>text.match(/(\d+)[\/\-](\d+)[\/\-](\d+)/)\<close>: the three groups of the leftmost
  match. At a start position each group is the whole run of digits there: a shorter
  first or second group would be followed by a digit, not by a separator.
\<close>

definition isDateSep :: "char \<Rightarrow> bool" where
  "isDateSep c = (c = CHR ''/'' \<or> c = CHR ''-'')"

definition matchDateAt :: "string \<Rightarrow> (string \<times> string \<times> string) option" where
  "matchDateAt s =
     (let g1 = takeWhile isDigit s; r1 = dropWhile isDigit s;
          g2 = takeWhile isDigit (drop 1 r1); r2 = dropWhile isDigit (drop 1 r1);
          g3 = takeWhile isDigit (drop 1 r2)
      in if g1 \<noteq> [] \<and> list_ex isDateSep (take 1 r1) \<and> g2 \<noteq> []
            \<and> list_ex isDateSep (take 1 r2) \<and> g3 \<noteq> []
         then Some (g1, g2, g3) else None)"

fun matchDate :: "string \<Rightarrow> (string \<times> string \<times> string) option" where
  "matchDate [] = None"
| "matchDate (c # cs) =
     (case matchDateAt (c # cs) of Some m \<Rightarrow> Some m | None \<Rightarrow> matchDate cs)"

text \<open>
  Truthiness of a string argument that may be null: null and the empty string are
  falsy.
\<close>

fun truthy :: "string option \<Rightarrow> bool" where
  "truthy None = False"
| "truthy (Some s) = (s \<noteq> [])"

section \<open>Property reads on object literals\<close>

text \<open>
  \<open>obj[key]\<close> on an object written as a literal finds the object's own property, or
  else the property of that name that every such object inherits from
  \<open>Object.prototype\<close>; only when there is neither is the result undefined. The
  inherited values are functions (and, for \<open>__proto__\<close>, the prototype object): all
  truthy, none iterable, none with a \<open>push\<close> method.
\<close>

definition objectPrototypeKeys :: "string list" where
  "objectPrototypeKeys =
     [''constructor'', ''__proto__'', ''hasOwnProperty'', ''isPrototypeOf'',
      ''propertyIsEnumerable'', ''toLocaleString'', ''toString'', ''valueOf'',
      ''__defineGetter__'', ''__defineSetter__'', ''__lookupGetter__'',
      ''__lookupSetter__'']"

datatype 'a property = Own 'a | Inherited | Absent

definition getProperty :: "(string \<times> 'a) list \<Rightarrow> string \<Rightarrow> 'a property" where
  "getProperty obj k =
     (case map_of obj k of
        Some v \<Rightarrow> Own v
      | None \<Rightarrow> if k \<in> set objectPrototypeKeys then Inherited else Absent)"

section \<open>getAirQualityCategory\<close>

record tier =
  category :: string
  color :: string

record threshold = tier +
  max_bound :: jsnum

definition mkThreshold :: "jsnum \<Rightarrow> string \<Rightarrow> string \<Rightarrow> threshold" where
  "mkThreshold m c k = \<lparr>category = c, color = k, max_bound = m\<rparr>"

text \<open>
  The six breakpoint tables. A literal with a fraction, such as \<open>35.4\<close>, denotes the
  double nearest to it; a whole number of this size is a double itself.
\<close>

definition o3_thresholds :: "threshold list" where
  "o3_thresholds =
     [mkThreshold (Fin 70) ''Good'' ''#00e400'',
      mkThreshold (Fin 95) ''Moderate'' ''#ffff00'',
      mkThreshold (Fin 154) ''Unhealthy for Sensitive Groups'' ''#ff7e00'',
      mkThreshold (Fin 204) ''Unhealthy'' ''#ff0000'',
      mkThreshold (Fin 404) ''Very Unhealthy'' ''#99004c'',
      mkThreshold PosInf ''Hazardous'' ''#7e0023'']"

definition pm10_thresholds :: "threshold list" where
  "pm10_thresholds =
     [mkThreshold (Fin 54) ''Good'' ''#00e400'',
      mkThreshold (Fin 154) ''Moderate'' ''#ffff00'',
      mkThreshold (Fin 254) ''Unhealthy for Sensitive Groups'' ''#ff7e00'',
      mkThreshold (Fin 354) ''Unhealthy'' ''#ff0000'',
      mkThreshold (Fin 424) ''Very Unhealthy'' ''#99004c'',
      mkThreshold PosInf ''Hazardous'' ''#7e0023'']"

definition pm25_thresholds :: "threshold list" where
  "pm25_thresholds =
     [mkThreshold (Fin 12) ''Good'' ''#00e400'',
      mkThreshold (toDouble (354 / 10)) ''Moderate'' ''#ffff00'',
      mkThreshold (toDouble (554 / 10)) ''Unhealthy for Sensitive Groups'' ''#ff7e00'',
      mkThreshold (toDouble (1504 / 10)) ''Unhealthy'' ''#ff0000'',
      mkThreshold (toDouble (2504 / 10)) ''Very Unhealthy'' ''#99004c'',
      mkThreshold PosInf ''Hazardous'' ''#7e0023'']"

definition nox_thresholds :: "threshold list" where
  "nox_thresholds =
     [mkThreshold (Fin 53) ''Good'' ''#00e400'',
      mkThreshold (Fin 100) ''Moderate'' ''#ffff00'',
      mkThreshold (Fin 360) ''Unhealthy for Sensitive Groups'' ''#ff7e00'',
      mkThreshold (Fin 649) ''Unhealthy'' ''#ff0000'',
      mkThreshold (Fin 1249) ''Very Unhealthy'' ''#99004c'',
      mkThreshold PosInf ''Hazardous'' ''#7e0023'']"

definition co_thresholds :: "threshold list" where
  "co_thresholds =
     [mkThreshold (toDouble (44 / 10)) ''Good'' ''#00e400'',
      mkThreshold (toDouble (94 / 10)) ''Moderate'' ''#ffff00'',
      mkThreshold (toDouble (124 / 10)) ''Unhealthy for Sensitive Groups'' ''#ff7e00'',
      mkThreshold (toDouble (154 / 10)) ''Unhealthy'' ''#ff0000'',
      mkThreshold (toDouble (304 / 10)) ''Very Unhealthy'' ''#99004c'',
      mkThreshold PosInf ''Hazardous'' ''#7e0023'']"

definition so2_thresholds :: "threshold list" where
  "so2_thresholds =
     [mkThreshold (Fin 35) ''Good'' ''#00e400'',
      mkThreshold (Fin 75) ''Moderate'' ''#ffff00'',
      mkThreshold (Fin 185) ''Unhealthy for Sensitive Groups'' ''#ff7e00'',
      mkThreshold (Fin 304) ''Unhealthy'' ''#ff0000'',
      mkThreshold (Fin 604) ''Very Unhealthy'' ''#99004c'',
      mkThreshold PosInf ''Hazardous'' ''#7e0023'']"

text \<open>The object literal \<open>categories\<close>, its own properties in source order.\<close>

definition categories :: "(string \<times> threshold list) list" where
  "categories =
     [(''o3'', o3_thresholds), (''pm10'', pm10_thresholds), (''pm25'', pm25_thresholds),
      (''nox'', nox_thresholds), (''co'', co_thresholds), (''so2'', so2_thresholds)]"

text \<open>
  The loop \<open>for (const threshold of thresholds)\<close> with its early return, and the
  fallback after it.
\<close>

fun scanThresholds :: "threshold list \<Rightarrow> jsnum \<Rightarrow> tier" where
  "scanThresholds [] v = \<lparr>category = ''Unknown'', color = ''#808080''\<rparr>"
| "scanThresholds (t # ts) v =
     (if js_le v (max_bound t) then \<lparr>category = category t, color = color t\<rparr>
      else scanThresholds ts v)"

text \<open>
  \<open>categories[parameter] || categories.o3\<close> takes whatever the property read gives
  when that is truthy. An inherited property is truthy and not iterable, so the loop
  over it raises TypeError.
\<close>

definition getAirQualityCategory :: "string \<Rightarrow> jsnum \<Rightarrow> js_error + tier" where
  "getAirQualityCategory parameter v =
     (case getProperty categories parameter of
        Own thresholds \<Rightarrow> Inr (scanThresholds thresholds v)
      | Inherited \<Rightarrow> Inl TypeError
      | Absent \<Rightarrow> Inr (scanThresholds o3_thresholds v))"

section \<open>processAirQualityData\<close>

text \<open>
  An Observation. The field \<open>value'\<close> is the source's \<open>value\<close>: a number, or
  \<open>None\<close> for null.
\<close>

record observation =
  date :: string
  hour :: string
  value' :: "jsnum option"
  rawValue :: string
  station :: string
  parameter :: string

text \<open>An entry of \<open>hourlyAverages\<close> as returned.\<close>

record hourlyAverage =
  avg_date :: string
  avg_hour :: string
  avg_value :: jsnum
  stationCount :: nat

record aggregate =
  stations :: "(string \<times> observation list) list"
  hourlyAverages :: "hourlyAverage list"

text \<open>
  \<open>obj[key] = v\<close> and \<open>Map.prototype.set\<close>: the value of an existing key is
  replaced where the key stands, a new key is added last.
\<close>

fun setProperty :: "'k \<Rightarrow> 'v \<Rightarrow> ('k \<times> 'v) list \<Rightarrow> ('k \<times> 'v) list" where
  "setProperty k v [] = [(k, v)]"
| "setProperty k v (p # ps) = (if fst p = k then (k, v) # ps else p # setProperty k v ps)"

text \<open>
  The first \<open>data.forEach\<close>. An array is truthy, so a station seen before is pushed
  to. A station whose name is an inherited property reads as truthy too, and the call
  of its \<open>push\<close> raises TypeError.
\<close>

fun groupByStation ::
  "(string \<times> observation list) list \<Rightarrow> observation list
   \<Rightarrow> js_error + (string \<times> observation list) list" where
  "groupByStation stationData [] = Inr stationData"
| "groupByStation stationData (item # items) =
     (case getProperty stationData (station item) of
        Absent \<Rightarrow> groupByStation (setProperty (station item) [item] stationData) items
      | Own xs \<Rightarrow> groupByStation (setProperty (station item) (xs @ [item]) stationData) items
      | Inherited \<Rightarrow> Inl TypeError)"

text \<open>The key \<open>`${item.date} ${item.hour}`\<close>.\<close>

definition hourKey :: "observation \<Rightarrow> string" where
  "hourKey item = date item @ '' '' @ hour item"

text \<open>
  The second \<open>data.forEach\<close>: an entry is a pair (sum, count). A key always holds a
  space and no inherited property name does, so the inherited case (which would add
  no entry) never arises.
\<close>

fun accumulate ::
  "(string \<times> jsnum \<times> nat) list \<Rightarrow> observation list \<Rightarrow> (string \<times> jsnum \<times> nat) list" where
  "accumulate acc [] = acc"
| "accumulate acc (item # items) =
     (case value' item of
        None \<Rightarrow> accumulate acc items
      | Some v \<Rightarrow>
          (case getProperty acc (hourKey item) of
             Absent \<Rightarrow> accumulate (setProperty (hourKey item) (v, 1) acc) items
           | Own e \<Rightarrow>
               accumulate (setProperty (hourKey item) (js_add (fst e) v, snd e + 1) acc) items
           | Inherited \<Rightarrow> accumulate acc items))"

text \<open>
  \<open>key.split(' ')\<close>, and the destructuring \<open>[date, hour]\<close> of its first two
  pieces (the key holds a space, so both exist).
\<close>

fun splitSpace :: "string \<Rightarrow> string list" where
  "splitSpace [] = [[]]"
| "splitSpace (c # cs) =
     (if c = CHR '' '' then [] # splitSpace cs
      else (case splitSpace cs of [] \<Rightarrow> [[c]] | p # ps \<Rightarrow> (c # p) # ps))"

definition piece :: "string list \<Rightarrow> nat \<Rightarrow> string" where
  "piece ps i = (if i < length ps then ps ! i else [])"

definition mkAverage :: "string \<times> jsnum \<times> nat \<Rightarrow> hourlyAverage" where
  "mkAverage e =
     \<lparr>avg_date = piece (splitSpace (fst e)) 0,
      avg_hour = piece (splitSpace (fst e)) 1,
      avg_value = toFixed1 (js_div_count (fst (snd e)) (snd (snd e))),
      stationCount = snd (snd e)\<rparr>"

text \<open>
  The comparator of the sort. \<open>localeCompare\<close> is modelled as the comparison of the
  code units, which is the order of any locale on dates written with digits and
  hyphens; on other texts a locale may order otherwise. A difference that is NaN
  counts as zero, as the sort takes it.
\<close>

fun localeCompare :: "string \<Rightarrow> string \<Rightarrow> int" where
  "localeCompare [] [] = 0"
| "localeCompare [] (y # ys) = - 1"
| "localeCompare (x # xs) [] = 1"
| "localeCompare (x # xs) (y # ys) =
     (if (of_char x :: nat) < of_char y then - 1
      else if (of_char y :: nat) < of_char x then 1
      else localeCompare xs ys)"

definition compareAverages :: "hourlyAverage \<Rightarrow> hourlyAverage \<Rightarrow> int" where
  "compareAverages a b =
     (if avg_date a \<noteq> avg_date b then localeCompare (avg_date a) (avg_date b)
      else (case (parseInt (avg_hour a), parseInt (avg_hour b)) of
              (Some x, Some y) \<Rightarrow> x - y
            | _ \<Rightarrow> 0))"

text \<open>
  \<open>Array.prototype.sort\<close> with a comparator, as a stable insertion sort. This is the
  order of the result when the comparator is a consistent order of the entries, as it is
  on dates and hours of the parser; otherwise the language leaves the order to the
  engine, and only the entries of the result, not their order, are modelled.
\<close>

fun insertBy :: "('a \<Rightarrow> 'a \<Rightarrow> int) \<Rightarrow> 'a \<Rightarrow> 'a list \<Rightarrow> 'a list" where
  "insertBy cmp x [] = [x]"
| "insertBy cmp x (y # ys) = (if cmp y x \<le> 0 then y # insertBy cmp x ys else x # y # ys)"

definition sortBy :: "('a \<Rightarrow> 'a \<Rightarrow> int) \<Rightarrow> 'a list \<Rightarrow> 'a list" where
  "sortBy cmp xs = foldl (\<lambda>acc x. insertBy cmp x acc) [] xs"

definition processAirQualityData :: "observation list \<Rightarrow> js_error + aggregate" where
  "processAirQualityData data =
     (if data = [] then Inr \<lparr>stations = [], hourlyAverages = []\<rparr>
      else (case groupByStation [] data of
              Inl e \<Rightarrow> Inl e
            | Inr stationData \<Rightarrow>
                Inr \<lparr>stations = stationData,
                     hourlyAverages = sortBy compareAverages (map mkAverage (accumulate [] data))\<rparr>))"

section \<open>parseAirQualityHtml\<close>

text \<open>
  What the function reads of the parsed document: \<open>doc.querySelectorAll('table')\<close>,
  each table as the list \<open>querySelectorAll('tr')\<close> of its rows, each row as the
  \<open>textContent\<close> of its \<open>querySelectorAll('td')\<close> cells, all in document order. The
  parser (\<open>DOMParser\<close>) belongs to the browser and is a parameter of the model; the
  model is of a page where it exists.
\<close>

type_synonym cells = "string list"
type_synonym table_rows = "cells list"
type_synonym document = "table_rows list"

text \<open>
  The wall clock read once per call: \<open>getFullYear()\<close>, \<open>getMonth()\<close> (from zero),
  \<open>getDate()\<close> and \<open>getHours()\<close> of \<open>new Date()\<close>.
\<close>

record clock =
  fullYear :: int
  monthIndex :: nat
  dayOfMonth :: nat
  hours :: nat

definition currentMonth :: "clock \<Rightarrow> string" where
  "currentMonth now = padStart2 (toStringNat (monthIndex now + 1))"

definition currentDay :: "clock \<Rightarrow> string" where
  "currentDay now = padStart2 (toStringNat (dayOfMonth now))"

text \<open>
  Lines 61 to 66 read an identifier \<open>tables\<close> before the function declares one: the
  \<open>const tables\<close> of line 82 is scoped to the \<open>try\<close> block, so the read resolves in
  the scopes around the function. The file declares no such name; what another script
  of the page may have bound it to is a parameter of the model:
  \<^item> \<open>NotDeclared\<close>: no binding, the read raises ReferenceError;
  \<^item> \<open>NullOrUndefined\<close>: the read of \<open>.length\<close> raises TypeError;
  \<^item> \<open>NoLength\<close>: a value whose \<open>length\<close> is not greater than zero;
  \<^item> \<open>FirstOuterHTML h\<close>: a value of positive length; \<open>h\<close> is \<open>tables[0].outerHTML\<close>
    when that is a string, and \<open>None\<close> when the read of it or the call of its
    \<open>substring\<close> raises TypeError.
\<close>

datatype outer_tables = NotDeclared | NullOrUndefined | NoLength | FirstOuterHTML "string option"

fun debugPrelude :: "outer_tables \<Rightarrow> js_error option" where
  "debugPrelude NotDeclared = Some ReferenceError"
| "debugPrelude NullOrUndefined = Some TypeError"
| "debugPrelude NoLength = None"
| "debugPrelude (FirstOuterHTML None) = Some TypeError"
| "debugPrelude (FirstOuterHTML (Some h)) = None"

text \<open>Lines 94 to 104: the table with the most rows, the first of them on a tie.\<close>

fun selectTable :: "table_rows \<Rightarrow> document \<Rightarrow> table_rows" where
  "selectTable dataTable [] = dataTable"
| "selectTable dataTable (t # ts) =
     (if length t > length dataTable then selectTable t ts else selectTable dataTable ts)"

text \<open>\<open>Array.prototype.findIndex\<close>; \<open>None\<close> is the result -1.\<close>

fun findIndex :: "('a \<Rightarrow> bool) \<Rightarrow> 'a list \<Rightarrow> nat option" where
  "findIndex P [] = None"
| "findIndex P (x # xs) = (if P x then Some 0 else map_option Suc (findIndex P xs))"

definition isHeaderOf :: "string \<Rightarrow> string \<Rightarrow> bool" where
  "isHeaderOf word text = (toLowerCase text = word \<or> includes_str (toLowerCase text) word)"

text \<open>Lines 160 to 174: the Map from station name to column index.\<close>

definition addStation ::
  "string option \<Rightarrow> string list \<Rightarrow> (string \<times> nat) list \<Rightarrow> nat \<Rightarrow> (string \<times> nat) list" where
  "addStation specificStation headerTexts stationIndices i =
     (let stationName = trim (headerTexts ! i)
      in if stationName \<noteq> []
         then (if truthy specificStation \<and> Some stationName \<noteq> specificStation
               then stationIndices
               else setProperty stationName i stationIndices)
         else stationIndices)"

definition stationColumns :: "string option \<Rightarrow> nat \<Rightarrow> string list \<Rightarrow> (string \<times> nat) list" where
  "stationColumns specificStation stationStartIndex headerTexts =
     foldl (addStation specificStation headerTexts) [] [stationStartIndex ..< length headerTexts]"

text \<open>The comparison \<open>>\<close> of two \<open>parseInt\<close> results: false when either is NaN.\<close>

fun js_gt :: "int option \<Rightarrow> int option \<Rightarrow> bool" where
  "js_gt (Some x) (Some y) = (x > y)"
| "js_gt _ _ = False"

text \<open>Lines 200 to 212: the day of a Fecha cell, by the position of the year.\<close>

definition dayFromFecha :: "string \<Rightarrow> string option" where
  "dayFromFecha fechaText =
     (case matchDate fechaText of
        None \<Rightarrow> None
      | Some (g1, g2, g3) \<Rightarrow>
          Some (if js_gt (parseInt g3) (Some 31) then padStart2 g1
                else if js_gt (parseInt g1) (Some 31) then padStart2 g3
                else padStart2 g2))"

text \<open>
  Line 179: \<open>day\<close> is the padded \<open>specificDay\<close>, or null when that is falsy.
\<close>

definition dayOfFilter :: "string option \<Rightarrow> string option" where
  "dayOfFilter specificDay =
     (case specificDay of
        None \<Rightarrow> None
      | Some d \<Rightarrow> if d = [] then None else Some (padStart2 d))"

text \<open>
  Lines 197 to 220: the day of a row; \<open>None\<close> when the row is skipped for want of one.
\<close>

definition rowDayOf :: "string option \<Rightarrow> nat option \<Rightarrow> cells \<Rightarrow> string option" where
  "rowDayOf specificDay fechaIndex cells =
     (let day = dayOfFilter specificDay;
          rowDay = (case fechaIndex of
                      None \<Rightarrow> day
                    | Some fi \<Rightarrow>
                        if fi < length cells
                        then (case dayFromFecha (trim (cells ! fi)) of
                                None \<Rightarrow> day
                              | Some d \<Rightarrow> Some d)
                        else day)
      in if truthy rowDay then rowDay
         else (case specificDay of
                 None \<Rightarrow> None
               | Some d \<Rightarrow> if d = [] then None else Some (padStart2 d)))"

text \<open>
  Lines 222 to 233: the hour of a row. \<open>None\<close> stands for null (no digit in the cell)
  and for NaN alike; line 236 skips the row on both.
\<close>

definition hourOf :: "nat \<Rightarrow> cells \<Rightarrow> int option" where
  "hourOf horaIndex cells =
     (if horaIndex < length cells
      then (case matchDigits (trim (cells ! horaIndex)) of
              None \<Rightarrow> None
            | Some ds \<Rightarrow> parseInt ds)
      else None)"

text \<open>Line 241: \<open>specificHour !== null && parseInt(specificHour) !== hour\<close>.\<close>

definition otherHour :: "string option \<Rightarrow> int \<Rightarrow> bool" where
  "otherHour specificHour h =
     (case specificHour of None \<Rightarrow> False | Some s \<Rightarrow> parseInt s \<noteq> Some h)"

text \<open>Lines 246 to 254: the filter on future rows.\<close>

definition isCurrentDay :: "clock \<Rightarrow> string \<Rightarrow> string \<Rightarrow> string \<Rightarrow> bool" where
  "isCurrentDay now year month rowDay =
     (parseInt year = Some (fullYear now) \<and> month = currentMonth now \<and> rowDay = currentDay now)"

definition isFutureDay :: "clock \<Rightarrow> string \<Rightarrow> string \<Rightarrow> string \<Rightarrow> bool" where
  "isFutureDay now year month rowDay =
     (js_gt (parseInt year) (Some (fullYear now))
      \<or> (parseInt year = Some (fullYear now)
          \<and> js_gt (parseInt month) (parseInt (currentMonth now)))
      \<or> (parseInt year = Some (fullYear now) \<and> month = currentMonth now
          \<and> js_gt (parseInt rowDay) (parseInt (currentDay now))))"

definition skipFuture :: "clock \<Rightarrow> string \<Rightarrow> string \<Rightarrow> string \<Rightarrow> int \<Rightarrow> bool" where
  "skipFuture now year month rowDay h =
     (isFutureDay now year month rowDay
      \<or> (isCurrentDay now year month rowDay \<and> h > int (hours now)))"

text \<open>
  \<open>parseFloat\<close> on the text left by \<open>replace(/[^\d.]/g, '')\<close>, which holds digits and
  dots only: the digits before the first dot and those right after it, read as a
  decimal and rounded to the nearest double; NaN when there is no digit in either
  place.
\<close>

definition parseFloat :: "string \<Rightarrow> jsnum" where
  "parseFloat s =
     (let ip = takeWhile isDigit s; r = dropWhile isDigit s;
          fp = (if take 1 r = ''.'' then takeWhile isDigit (drop 1 r) else [])
      in if ip = [] \<and> fp = [] then NaN
         else toDouble (real (radixNumber 10 ip) + real (radixNumber 10 fp) / 10 ^ length fp))"

text \<open>
  \<open>value.toString()\<close> of the number read from such a text, in plain decimal notation:
  no leading zero but one before the dot, no trailing zero after it. This is what
  JavaScript prints for a text of at most fifteen significant digits whose value is
  zero or lies from 1e-6 up to 1e21. For other texts JavaScript prints the shortest
  decimal that reads back as the double, in exponent notation outside that range, and
  \<open>Infinity\<close> from \<open>2^1024\<close> on; there \<open>rawValue\<close> is outside the model.
\<close>

definition numberText :: "string \<Rightarrow> string" where
  "numberText s =
     (let ip = dropWhile (\<lambda>c. c = CHR ''0'') (takeWhile isDigit s); r = dropWhile isDigit s;
          fp = (if take 1 r = ''.'' then takeWhile isDigit (drop 1 r) else []);
          fp' = rev (dropWhile (\<lambda>c. c = CHR ''0'') (rev fp))
      in (if ip = [] then ''0'' else ip) @ (if fp' = [] then [] else CHR ''.'' # fp'))"

definition missingTokens :: "string list" where
  "missingTokens = [[], ''-'', ''n/d'', ''nr'', ''nv'', ''**'', ''na'', ''n/a'']"

text \<open>Lines 264 to 308: what one station column of a row adds to \<open>data\<close>.\<close>

definition emitCell ::
  "string \<Rightarrow> string \<Rightarrow> string \<Rightarrow> string \<Rightarrow> string \<Rightarrow> cells \<Rightarrow> string \<times> nat
   \<Rightarrow> observation list" where
  "emitCell parameter' year month rowDay formattedHour cells entry =
     (if snd entry \<ge> length cells then []
      else
        let valueText = trim (cells ! snd entry)
        in if valueText = [] then []
           else if toLowerCase valueText \<in> set missingTokens
           then [\<lparr>date = year @ ''-'' @ month @ ''-'' @ rowDay, hour = formattedHour,
                   value' = None, rawValue = toUpperCase valueText,
                   station = fst entry, parameter = parameter'\<rparr>]
           else
             let cleanText = filter (\<lambda>c. isDigit c \<or> c = CHR ''.'') valueText
             in if cleanText = [] then []
                else (case parseFloat cleanText of
                        NaN \<Rightarrow> []
                      | v \<Rightarrow> [\<lparr>date = year @ ''-'' @ month @ ''-'' @ rowDay,
                                hour = formattedHour,
                                value' = Some v, rawValue = numberText cleanText,
                                station = fst entry, parameter = parameter'\<rparr>]))"

text \<open>Lines 189 to 310: what one data row adds to \<open>data\<close>.\<close>

definition processRow ::
  "clock \<Rightarrow> string \<Rightarrow> string \<Rightarrow> string \<Rightarrow> string option \<Rightarrow> string option \<Rightarrow> nat option \<Rightarrow> nat
   \<Rightarrow> (string \<times> nat) list \<Rightarrow> cells \<Rightarrow> observation list" where
  "processRow now parameter' year month specificDay specificHour fechaIndex horaIndex
     stationIndices cells =
     (if length cells \<le> horaIndex + 1 then []
      else (case rowDayOf specificDay fechaIndex cells of
              None \<Rightarrow> []
            | Some rowDay \<Rightarrow>
                (case hourOf horaIndex cells of
                   None \<Rightarrow> []
                 | Some h \<Rightarrow>
                     if h < 0 \<or> h > 23 then []
                     else if otherHour specificHour h then []
                     else if skipFuture now year month rowDay h then []
                     else concat (map (emitCell parameter' year month rowDay
                                         (padStart2 (toStringNat (nat h))) cells)
                                      stationIndices))))"

text \<open>
  The first part of the \<open>try\<close> block (lines 80 to 176) settles what the row loop works
  with: the index of the Fecha column if there is one, the index of the Hora column,
  the Map of station columns, and the data rows (the rows of the selected table from
  the third on). The result \<open>Inr None\<close> is an early \<open>return []\<close>. With fewer than two
  header cells the code returns, unless the parameter is pm25 or pm25nowCast: then it
  looks at rows 2 to 4 for one with two cells or more and assigns it to \<open>headerCells\<close>,
  which is a \<open>const\<close>, so the assignment raises TypeError.
\<close>

record layout =
  fechaIndex :: "nat option"
  horaIndex :: nat
  stationIndices :: "(string \<times> nat) list"
  dataRows :: "cells list"

definition resolveLayout :: "document \<Rightarrow> string \<Rightarrow> string option \<Rightarrow> js_error + layout option" where
  "resolveLayout tables parameter' specificStation =
     (case tables of
        [] \<Rightarrow> Inr None
      | t # ts \<Rightarrow>
          let rows = selectTable t ts
          in if length rows < 2 then Inr None
             else
               let headerCells = rows ! 1
               in if length headerCells < 2 \<and> parameter' \<noteq> ''pm25''
                     \<and> parameter' \<noteq> ''pm25nowCast''
                  then Inr None
                  else if length headerCells < 2
                          \<and> list_ex (\<lambda>r. length r \<ge> 2) (take 3 (drop 2 rows))
                  then Inl TypeError
                  else
                    let headerTexts = map trim headerCells
                    in (case findIndex (isHeaderOf ''hora'') headerTexts of
                          None \<Rightarrow> Inr None
                        | Some hi \<Rightarrow>
                            Inr (Some \<lparr>fechaIndex = findIndex (isHeaderOf ''fecha'') headerTexts,
                                       horaIndex = hi,
                                       stationIndices =
                                         stationColumns specificStation (hi + 1) headerTexts,
                                       dataRows = drop 2 rows\<rparr>)))"

text \<open>
  The \<open>try\<close> block (lines 80 to 312): the layout, then the loop over the data rows
  (lines 188 to 310), which adds what each row gives to \<open>data\<close>.
\<close>

definition tryBlock ::
  "clock \<Rightarrow> document \<Rightarrow> string \<Rightarrow> string \<Rightarrow> string \<Rightarrow> string option \<Rightarrow> string option
   \<Rightarrow> string option \<Rightarrow> js_error + observation list" where
  "tryBlock now tables parameter' year month specificDay specificHour specificStation =
     (case resolveLayout tables parameter' specificStation of
        Inl e \<Rightarrow> Inl e
      | Inr None \<Rightarrow> Inr []
      | Inr (Some l) \<Rightarrow>
          Inr (concat (map (processRow now parameter' year month specificDay specificHour
                              (fechaIndex l) (horaIndex l) (stationIndices l))
                           (dataRows l))))"

text \<open>
  The whole function: the reads of lines 61 to 66, the length check of line 69, then
  the \<open>try\<close> block. An exception raised in the block is caught at line 314 and the
  function returns \<open>data\<close>, which is still empty where the block can raise.
\<close>

definition parseAirQualityHtml ::
  "outer_tables \<Rightarrow> (string \<Rightarrow> document) \<Rightarrow> clock \<Rightarrow> string \<Rightarrow> string \<Rightarrow> string \<Rightarrow> string
   \<Rightarrow> string option \<Rightarrow> string option \<Rightarrow> string option \<Rightarrow> js_error + observation list" where
  "parseAirQualityHtml outer domParse now html parameter' year month specificDay
     specificHour specificStation =
     (case debugPrelude outer of
        Some e \<Rightarrow> Inl e
      | None \<Rightarrow>
          if html = [] \<or> length html < 100 then Inr []
          else (case tryBlock now (domParse html) parameter' year month specificDay
                       specificHour specificStation of
                  Inl e \<Rightarrow> Inr []
                | Inr data \<Rightarrow> Inr data))"

section \<open>Notions used to state the properties\<close>

text \<open>
  The table the loop scans for a parameter that is not an inherited property name: the
  parameter's own table, or the one of o3 when it has none.
\<close>

definition tableOf :: "string \<Rightarrow> threshold list" where
  "tableOf p = (case map_of categories p of Some ts \<Rightarrow> ts | None \<Rightarrow> o3_thresholds)"

text \<open>
  The observations that have a value, the keys they stand under, and the values under
  one key in input order.
\<close>

definition present :: "observation list \<Rightarrow> observation list" where
  "present data = filter (\<lambda>item. value' item \<noteq> None) data"

definition keysPresent :: "observation list \<Rightarrow> string set" where
  "keysPresent data = hourKey ` set (present data)"

fun valuesAt :: "observation list \<Rightarrow> string \<Rightarrow> jsnum list" where
  "valuesAt [] k = []"
| "valuesAt (item # items) k =
     (case value' item of
        None \<Rightarrow> valuesAt items k
      | Some v \<Rightarrow> if hourKey item = k then v # valuesAt items k else valuesAt items k)"

text \<open>The sum of a non-empty list of numbers, added from the left as the code does.\<close>

fun js_sum :: "jsnum list \<Rightarrow> jsnum" where
  "js_sum [] = NaN"
| "js_sum (v # vs) = foldl js_add v vs"

text \<open>
  The hourly average the specification describes for a key: the mean of the values that
  are not missing under the key, rounded to one decimal place, and their number.
\<close>

definition averageAt :: "observation list \<Rightarrow> string \<Rightarrow> hourlyAverage" where
  "averageAt data k =
     \<lparr>avg_date = piece (splitSpace k) 0,
      avg_hour = piece (splitSpace k) 1,
      avg_value = toFixed1 (js_div_count (js_sum (valuesAt data k)) (length (valuesAt data k))),
      stationCount = length (valuesAt data k)\<rparr>"

text \<open>The observations of one station, in input order.\<close>

definition ofStation :: "observation list \<Rightarrow> string \<Rightarrow> observation list" where
  "ofStation data s = filter (\<lambda>item. station item = s) data"

text \<open>
  The invariants of the two loops of processAirQualityData: after the observations
  \<open>seen\<close>, the first object holds one property per station seen, whose value is the
  observations of that station in input order; the second holds one entry per key under
  which \<open>seen\<close> has a value, with the sum and the number of those values.
\<close>

definition grouped :: "(string \<times> observation list) list \<Rightarrow> observation list \<Rightarrow> bool" where
  "grouped stationData seen \<longleftrightarrow>
     distinct (map fst stationData)
     \<and> (\<forall>s. map_of stationData s
            = (if s \<in> station ` set seen then Some (ofStation seen s) else None))"

definition summed :: "(string \<times> jsnum \<times> nat) list \<Rightarrow> observation list \<Rightarrow> bool" where
  "summed acc seen \<longleftrightarrow>
     distinct (map fst acc)
     \<and> (\<forall>k. map_of acc k
            = (if k \<in> keysPresent seen
               then Some (js_sum (valuesAt seen k), length (valuesAt seen k)) else None))"

text \<open>One turn of the first loop, when the read of the station's property is not inherited.\<close>

definition pushItem ::
  "(string \<times> observation list) list \<Rightarrow> observation \<Rightarrow> (string \<times> observation list) list" where
  "pushItem sd item =
     setProperty (station item)
       (case getProperty sd (station item) of Own xs \<Rightarrow> xs @ [item] | _ \<Rightarrow> [item]) sd"

text \<open>
  A data row passes the filters of the row loop with the day \<open>rowDay\<close> and the hour
  \<open>h\<close>: it has a cell beyond the Hora column, a day, an hour from 0 to 23 that the hour
  filter accepts, and it is not skipped as future.
\<close>

definition rowPasses ::
  "clock \<Rightarrow> string \<Rightarrow> string \<Rightarrow> string option \<Rightarrow> string option \<Rightarrow> nat option \<Rightarrow> nat \<Rightarrow> cells
   \<Rightarrow> string \<Rightarrow> int \<Rightarrow> bool" where
  "rowPasses now year month specificDay specificHour fi hi cells rowDay h \<longleftrightarrow>
     hi + 1 < length cells \<and> rowDayOf specificDay fi cells = Some rowDay
     \<and> hourOf hi cells = Some h \<and> 0 \<le> h \<and> h \<le> 23
     \<and> \<not> otherHour specificHour h \<and> \<not> skipFuture now year month rowDay h"

text \<open>
  A date of the form YYYY-MM-DD with numeric components, as the specification words it:
  four digits, a hyphen, two digits, a hyphen, two digits.
\<close>

definition isIsoDate :: "string \<Rightarrow> bool" where
  "isIsoDate s \<longleftrightarrow>
     length s = 10 \<and> list_all isDigit (take 4 s) \<and> take 1 (drop 4 s) = ''-''
     \<and> list_all isDigit (take 2 (drop 5 s)) \<and> take 1 (drop 7 s) = ''-''
     \<and> list_all isDigit (drop 8 s)"


section \<open>Example inputs\<close>

text \<open>
  Markups of the shape the site serves (a title row, a header row, data rows), each
  with the document a browser parses it to, and two readings of the wall clock.
\<close>

definition markupBadDay :: string where
  "markupBadDay =
     ''<table><tr><td>CDMX</td></tr><tr><td>Fecha</td><td>Hora</td>'' @
     ''<td>ACO</td></tr><tr><td>100/03/2025</td><td>1</td><td>12</t'' @
     ''d></tr></table>''"

definition docBadDay :: document where
  "docBadDay =
     [[[''CDMX''], [''Fecha'', ''Hora'', ''ACO''], [''100/03/2025'', ''1'', ''12'']]]"

definition markupNoFecha :: string where
  "markupNoFecha =
     ''<p>Dia: 15</p><table><tr><td>CDMX</td></tr><tr><td>Hora</td>'' @
     ''<td>ACO</td><td>MER</td></tr><tr><td>1</td><td>12</td><td>15'' @
     ''</td></tr><tr><td>2</td><td>14</td><td>16</td></tr></table>''"

definition docNoFecha :: document where
  "docNoFecha =
     [[[''CDMX''], [''Hora'', ''ACO'', ''MER''], [''1'', ''12'', ''15''], [''2'', ''14'', ''16'']]]"

definition markupMissing :: string where
  "markupMissing =
     ''<table><tr><td>CDMX</td></tr><tr><td>Fecha</td><td>Hora</td>'' @
     ''<td>ACO</td><td>MER</td></tr><tr><td>01/03/2025</td><td>1</t'' @
     ''d><td></td><td>NR</td></tr><tr><td>01/03/2025</td><td>24</td'' @
     ''><td>5</td><td>6</td></tr></table>''"

definition docMissing :: document where
  "docMissing =
     [[[''CDMX''], [''Fecha'', ''Hora'', ''ACO'', ''MER''], [''01/03/2025'', ''1'', [], ''NR''], [''01/03/2025'', ''24'', ''5'', ''6'']]]"

definition markupLongDay :: string where
  "markupLongDay =
     ''<table><tr><td>CDMX</td></tr><tr><td>Fecha</td><td>Hora</td>'' @
     ''<td>ACO</td></tr><tr><td>005/03/2025</td><td>23</td><td>7</t'' @
     ''d></tr></table>''"

definition docLongDay :: document where
  "docLongDay =
     [[[''CDMX''], [''Fecha'', ''Hora'', ''ACO''], [''005/03/2025'', ''23'', ''7'']]]"

definition markupToday :: string where
  "markupToday =
     ''<table><tr><td>CDMX</td></tr><tr><td>Fecha</td><td>Hora</td>'' @
     ''<td>ACO</td></tr><tr><td>05/03/2025</td><td>23</td><td>7</td'' @
     ''></tr><tr><td>05/03/2025</td><td>10</td><td>8</td></tr><tr><'' @
     ''td>06/03/2025</td><td>1</td><td>9</td></tr><tr><td>04/03/202'' @
     ''5</td><td>23</td><td>10</td></tr></table>''"

definition docToday :: document where
  "docToday =
     [[[''CDMX''], [''Fecha'', ''Hora'', ''ACO''], [''05/03/2025'', ''23'', ''7''], [''05/03/2025'', ''10'', ''8''], [''06/03/2025'', ''1'', ''9''], [''04/03/2025'', ''23'', ''10'']]]"

definition clockLater :: clock where
  "clockLater = \<lparr>fullYear = 2026, monthIndex = 10, dayOfMonth = 2, hours = 10\<rparr>"

definition clockMarch5 :: clock where
  "clockMarch5 = \<lparr>fullYear = 2025, monthIndex = 2, dayOfMonth = 5, hours = 10\<rparr>"

text \<open>
  Three whole readings of one hour, 1, 2 and 2, and a missing reading of the next hour.
\<close>

definition hourReadings :: "observation list" where
  "hourReadings =
     [\<lparr>date = ''2025-03-01'', hour = ''08'', value' = Some (Fin 1), rawValue = ''1'',
       station = ''A'', parameter = ''o3''\<rparr>,
      \<lparr>date = ''2025-03-01'', hour = ''08'', value' = Some (Fin 2), rawValue = ''2'',
       station = ''B'', parameter = ''o3''\<rparr>,
      \<lparr>date = ''2025-03-01'', hour = ''08'', value' = Some (Fin 2), rawValue = ''2'',
       station = ''C'', parameter = ''o3''\<rparr>,
      \<lparr>date = ''2025-03-01'', hour = ''09'', value' = None, rawValue = ''NR'',
       station = ''A'', parameter = ''o3''\<rparr>]"

section \<open>Properties of getAirQualityCategory\<close>

lemma getProperty_categories:
  "getProperty categories p =
     (if p = ''o3'' then Own o3_thresholds
      else if p = ''pm10'' then Own pm10_thresholds
      else if p = ''pm25'' then Own pm25_thresholds
      else if p = ''nox'' then Own nox_thresholds
      else if p = ''co'' then Own co_thresholds
      else if p = ''so2'' then Own so2_thresholds
      else if p \<in> set objectPrototypeKeys then Inherited else Absent)"
  by (simp add: getProperty_def categories_def)

text \<open>The doubles that the literals with a fraction denote.\<close>

lemma fractional_bounds:
  "toDouble (354 / 10) = Fin (4982107087778611 / 140737488355328)"
  "toDouble (554 / 10) = Fin (7796856854885171 / 140737488355328)"
  "toDouble (1504 / 10) = Fin (5291729562160333 / 35184372088832)"
  "toDouble (2504 / 10) = Fin (8810166771043533 / 35184372088832)"
  "toDouble (44 / 10) = Fin (2476979795053773 / 562949953421312)"
  "toDouble (94 / 10) = Fin (5291729562160333 / 562949953421312)"
  "toDouble (124 / 10) = Fin (6980579422424269 / 562949953421312)"
  "toDouble (154 / 10) = Fin (8669429282688205 / 562949953421312)"
  "toDouble (304 / 10) = Fin (4278419646001971 / 140737488355328)"
  by code_simp+

lemmas thresholds_defs = o3_thresholds_def pm10_thresholds_def
  pm25_thresholds_def [unfolded fractional_bounds] nox_thresholds_def
  co_thresholds_def [unfolded fractional_bounds] so2_thresholds_def mkThreshold_def

lemma category_scans_tableOf:
  "p \<notin> set objectPrototypeKeys \<Longrightarrow>
   getAirQualityCategory p v = Inr (scanThresholds (tableOf p) v)"
  by (simp add: getAirQualityCategory_def getProperty_def tableOf_def split: option.splits)

lemma category_of_inherited_name:
  "p \<in> set objectPrototypeKeys \<Longrightarrow> getAirQualityCategory p v = Inl TypeError"
  by (auto simp: getAirQualityCategory_def getProperty_categories objectPrototypeKeys_def)

lemma scanThresholds_first:
  assumes "\<exists>t \<in> set ts. js_le v (max_bound t)"
  shows "\<exists>i < length ts.
           scanThresholds ts v = \<lparr>category = category (ts ! i), color = color (ts ! i)\<rparr>
           \<and> js_le v (max_bound (ts ! i))
           \<and> (\<forall>j < i. \<not> js_le v (max_bound (ts ! j)))"
  using assms
proof (induction ts)
  case Nil
  then show ?case by simp
next
  case (Cons t ts)
  show ?case
  proof (cases "js_le v (max_bound t)")
    case True
    then have "scanThresholds (t # ts) v = \<lparr>category = category ((t # ts) ! 0), color = color ((t # ts) ! 0)\<rparr>
        \<and> js_le v (max_bound ((t # ts) ! 0)) \<and> (\<forall>j < 0. \<not> js_le v (max_bound ((t # ts) ! j)))"
      by simp
    then show ?thesis by blast
  next
    case False
    with Cons.prems have "\<exists>t \<in> set ts. js_le v (max_bound t)" by auto
    from Cons.IH [OF this] obtain i where i: "i < length ts"
      "scanThresholds ts v = \<lparr>category = category (ts ! i), color = color (ts ! i)\<rparr>"
      "js_le v (max_bound (ts ! i))" "\<forall>j < i. \<not> js_le v (max_bound (ts ! j))"
      by blast
    have "\<forall>j < Suc i. \<not> js_le v (max_bound ((t # ts) ! j))"
    proof (intro allI impI)
      fix j assume "j < Suc i"
      then show "\<not> js_le v (max_bound ((t # ts) ! j))"
        using False i(4) by (cases j) auto
    qed
    with i False have "Suc i < length (t # ts)
        \<and> scanThresholds (t # ts) v
            = \<lparr>category = category ((t # ts) ! Suc i), color = color ((t # ts) ! Suc i)\<rparr>
        \<and> js_le v (max_bound ((t # ts) ! Suc i))
        \<and> (\<forall>j < Suc i. \<not> js_le v (max_bound ((t # ts) ! j)))"
      by simp
    then show ?thesis by blast
  qed
qed

lemma tableOf_cases:
  "tableOf p \<in> {o3_thresholds, pm10_thresholds, pm25_thresholds, nox_thresholds,
                 co_thresholds, so2_thresholds}"
  by (simp add: tableOf_def categories_def)

lemma tableOf_last_unbounded: "\<exists>t \<in> set (tableOf p). max_bound t = PosInf"
  using tableOf_cases [of p] by (auto simp: thresholds_defs)

text \<open>
  For a finite value and a parameter that is not an inherited property name, the result
  is the first tier of the parameter's table (the table of o3 when it has none) whose
  bound is at least the value; there is always one, since every table ends with an
  unbounded tier.
\<close>

lemma category_is_first_tier:
  assumes "p \<notin> set objectPrototypeKeys"
  shows "\<exists>i < length (tableOf p).
           getAirQualityCategory p (Fin x)
             = Inr \<lparr>category = category (tableOf p ! i), color = color (tableOf p ! i)\<rparr>
           \<and> js_le (Fin x) (max_bound (tableOf p ! i))
           \<and> (\<forall>j < i. \<not> js_le (Fin x) (max_bound (tableOf p ! j)))"
proof -
  obtain t where "t \<in> set (tableOf p)" "max_bound t = PosInf"
    using tableOf_last_unbounded by blast
  then have "\<exists>t \<in> set (tableOf p). js_le (Fin x) (max_bound t)"
    by (intro bexI [of _ t]) simp_all
  from scanThresholds_first [OF this] show ?thesis
    by (simp add: category_scans_tableOf [OF assms])
qed

text \<open>Every table lists its tiers by strictly increasing bound.\<close>

lemma tables_ascending:
  "list_all (\<lambda>e. sorted_wrt (\<lambda>a b. js_le (max_bound a) (max_bound b)
                                      \<and> max_bound a \<noteq> max_bound b) (snd e)) categories"
  by (simp add: categories_def thresholds_defs)

lemma unknown_parameter_uses_o3:
  "map_of categories p = None \<Longrightarrow> p \<notin> set objectPrototypeKeys \<Longrightarrow>
   getAirQualityCategory p v = getAirQualityCategory ''o3'' v"
  by (simp add: category_scans_tableOf tableOf_def objectPrototypeKeys_def categories_def)

lemma o3_boundary:
  "getAirQualityCategory ''o3'' (Fin 70) = Inr \<lparr>category = ''Good'', color = ''#00e400''\<rparr>"
  "getAirQualityCategory ''o3'' (Fin (2466424483427123 / 35184372088832))
   = Inr \<lparr>category = ''Moderate'', color = ''#ffff00''\<rparr>"
  by (simp_all add: getAirQualityCategory_def getProperty_categories thresholds_defs)

text \<open>
  A bound with a fraction is the double of its literal, so the value read from the text
  of the literal is within it: 4.4 is Good for co, the next double above is not.
\<close>

lemma co_boundary:
  "getAirQualityCategory ''co'' (toDouble (44 / 10)) = Inr \<lparr>category = ''Good'', color = ''#00e400''\<rparr>"
  "getAirQualityCategory ''co'' (Fin (2476979795053774 / 562949953421312))
   = Inr \<lparr>category = ''Moderate'', color = ''#ffff00''\<rparr>"
  by (simp_all add: getAirQualityCategory_def getProperty_categories thresholds_defs
      fractional_bounds [simplified])

text \<open>
  C3, as the code has it. The fallback Unknown/#808080 is the result for NaN only:
  positive infinity is within the bound of the last tier and is Hazardous/#7e0023,
  negative infinity is within the bound of the first tier and is Good/#00e400. This holds
  for every parameter that is not the name of a property an object literal inherits.
\<close>

theorem nonfinite_category:
  assumes "p \<notin> set objectPrototypeKeys"
  shows "getAirQualityCategory p NaN = Inr \<lparr>category = ''Unknown'', color = ''#808080''\<rparr>
       \<and> getAirQualityCategory p PosInf = Inr \<lparr>category = ''Hazardous'', color = ''#7e0023''\<rparr>
       \<and> getAirQualityCategory p NegInf = Inr \<lparr>category = ''Good'', color = ''#00e400''\<rparr>"
  using assms
  by (simp add: getAirQualityCategory_def getProperty_categories thresholds_defs)

theorem nonfinite_category_witness:
  "''pm10'' \<notin> set objectPrototypeKeys
   \<and> getAirQualityCategory ''pm10'' NaN = Inr \<lparr>category = ''Unknown'', color = ''#808080''\<rparr>
   \<and> getAirQualityCategory ''pm10'' PosInf = Inr \<lparr>category = ''Hazardous'', color = ''#7e0023''\<rparr>
   \<and> getAirQualityCategory ''pm10'' NegInf = Inr \<lparr>category = ''Good'', color = ''#00e400''\<rparr>"
proof -
  have h: "''pm10'' \<notin> set objectPrototypeKeys"
    by (simp add: objectPrototypeKeys_def)
  from nonfinite_category [OF h] h show ?thesis by simp
qed

text \<open>
  C3 as stated fails: for positive infinity and the parameter o3 the result is the
  Hazardous tier, not the fallback.
\<close>

theorem infinity_is_hazardous:
  "getAirQualityCategory ''o3'' PosInf = Inr \<lparr>category = ''Hazardous'', color = ''#7e0023''\<rparr>
   \<and> getAirQualityCategory ''o3'' PosInf \<noteq> Inr \<lparr>category = ''Unknown'', color = ''#808080''\<rparr>"
  by (simp add: getAirQualityCategory_def getProperty_categories thresholds_defs)

text \<open>
  C4 at the parameter \<open>constructor\<close>, which has no breakpoint table: the read
  \<open>categories[parameter]\<close> gives the inherited function, the default to the o3 table is
  not taken, and the call raises TypeError instead of returning the o3 tier Good.
\<close>

theorem category_of_constructor_raises:
  "getAirQualityCategory ''constructor'' (Fin 50) = Inl TypeError
   \<and> getAirQualityCategory ''o3'' (Fin 50) = Inr \<lparr>category = ''Good'', color = ''#00e400''\<rparr>"
  by (simp add: getAirQualityCategory_def getProperty_categories objectPrototypeKeys_def
      thresholds_defs)

section \<open>Properties of the rounding to a double\<close>

lemma roundHalfEven_of_int: "roundHalfEven (of_int n) = n"
  by (simp add: roundHalfEven_def)

lemma exponentOf_of_int:
  assumes "0 < a"
  shows "exponentOf (of_int a) = bitlen a - 1"
  using assms by (simp add: exponentOf_def)

lemma bitlen_less_53:
  assumes "0 < a" "a < 2 ^ 53"
  shows "bitlen a \<le> 53"
proof (rule ccontr)
  assume "\<not> bitlen a \<le> 53"
  then have "53 \<le> nat (bitlen a - 1)" by simp
  then have "(2::int) ^ 53 \<le> 2 ^ nat (bitlen a - 1)"
    by (rule power_increasing) simp
  also have "\<dots> \<le> a" using bitlen_bounds [OF assms(1)] by simp
  finally show False using assms(2) by simp
qed

lemma toDouble_pos_int:
  assumes "0 < a" "a < 2 ^ 53"
  shows "toDouble (of_int a) = Fin (of_int a)"
proof -
  have b: "1 \<le> bitlen a" "bitlen a \<le> 53"
    using bitlen_less_53 [OF assms] assms(1) by (simp_all add: bitlen_def floorlog_def)
  define k where "k = nat (53 - bitlen a)"
  have e: "ulpExponent (of_int a) = - int k"
    using assms(1) b by (simp add: ulpExponent_def exponentOf_of_int k_def)
  have "scaleBy \<bar>of_int a\<bar> (int k) = of_int (a * 2 ^ k)"
    using assms(1) by (simp add: scaleBy_def)
  then have m: "mantissa (of_int a) = a * 2 ^ k"
    unfolding mantissa_def e by (simp only: minus_minus roundHalfEven_of_int)
  have "scaleBy (of_int (a * 2 ^ k)) (- int k) = of_int a"
    by (simp add: scaleBy_def)
  then show ?thesis
    using assms(1) by (simp add: toDouble_def e m)
qed

lemma ulpExponent_minus: "ulpExponent (- x) = ulpExponent x"
  by (simp add: ulpExponent_def)

lemma mantissa_minus: "mantissa (- x) = mantissa x"
  by (simp add: mantissa_def ulpExponent_minus)

lemma toDouble_minus: "toDouble (- x) = js_neg (toDouble x)"
proof -
  consider "x = 0" | "0 < x" | "x < 0" by linarith
  then show ?thesis
    by cases (simp_all add: toDouble_def ulpExponent_minus mantissa_minus)
qed

lemma toDouble_int:
  assumes "\<bar>z\<bar> < 2 ^ 53"
  shows "toDouble (of_int z) = Fin (of_int z)"
proof -
  consider "z = 0" | "0 < z" | "z < 0" by linarith
  then show ?thesis
  proof cases
    case 1
    then show ?thesis by (simp add: toDouble_def)
  next
    case 2
    with assms show ?thesis by (simp add: toDouble_pos_int)
  next
    case 3
    with assms have "toDouble (of_int (- z)) = Fin (of_int (- z))"
      by (intro toDouble_pos_int) simp_all
    then show ?thesis
      using toDouble_minus [of "of_int (- z)"] by simp
  qed
qed

lemma tenths_close: "\<bar>of_int (tenths x) / 10 - \<bar>x\<bar>\<bar> \<le> 1 / 20"
proof -
  have "real_of_int \<lfloor>\<bar>x\<bar> * 10 + 1 / 2\<rfloor> \<le> \<bar>x\<bar> * 10 + 1 / 2"
    and "\<bar>x\<bar> * 10 + 1 / 2 < real_of_int \<lfloor>\<bar>x\<bar> * 10 + 1 / 2\<rfloor> + 1"
    by linarith+
  then show ?thesis
    unfolding tenths_def by linarith
qed

lemma toFixed1_nearest_tenth:
  assumes "\<bar>q\<bar> < 1000000000000000000000"
  shows "\<exists>n. toFixed1 (Fin q) = toDouble (of_int n / 10) \<and> \<bar>of_int n / 10 - q\<bar> \<le> 1 / 20"
proof (cases "q < 0")
  case True
  have "toFixed1 (Fin q) = toDouble (of_int (- tenths q) / 10)"
    using assms True toDouble_minus [of "of_int (tenths q) / 10"] by simp
  moreover have "\<bar>of_int (- tenths q) / 10 - q\<bar> \<le> 1 / 20"
  proof -
    have "of_int (- tenths q) / 10 - q = - (real_of_int (tenths q) / 10 - \<bar>q\<bar>)"
      using True by simp
    then show ?thesis
      using tenths_close [of q] by (simp only: abs_minus_cancel)
  qed
  ultimately show ?thesis by blast
next
  case False
  have "toFixed1 (Fin q) = toDouble (of_int (tenths q) / 10)"
    using assms False by simp
  moreover have "\<bar>of_int (tenths q) / 10 - q\<bar> \<le> 1 / 20"
    using tenths_close [of q] False by simp
  ultimately show ?thesis by blast
qed

lemma foldl_js_add_int:
  "\<bar>s\<bar> + sum_list (map abs zs) < 2 ^ 53 \<Longrightarrow>
   foldl js_add (Fin (of_int s)) (map (\<lambda>z. Fin (of_int z)) zs) = Fin (of_int (s + sum_list zs))"
proof (induction zs arbitrary: s)
  case Nil
  then show ?case by simp
next
  case (Cons z zs)
  have "\<bar>s + z\<bar> < 2 ^ 53" using Cons.prems sum_list_abs [of zs]
    by (simp add: ) 
  then have "js_add (Fin (of_int s)) (Fin (of_int z)) = Fin (of_int (s + z))"
    using toDouble_int [of "s + z"] by simp
  moreover have "\<bar>s + z\<bar> + sum_list (map abs zs) < 2 ^ 53"
    using Cons.prems by simp
  ultimately show ?case
    using Cons.IH [of "s + z"] by (simp add: add.assoc)
qed

lemma js_sum_int:
  assumes "zs \<noteq> []" "sum_list (map abs zs) < 2 ^ 53"
  shows "js_sum (map (\<lambda>z. Fin (of_int z)) zs) = Fin (of_int (sum_list zs))"
proof -
  from assms(1) obtain z zs' where zs: "zs = z # zs'" by (cases zs) auto
  with assms(2) show ?thesis
    using foldl_js_add_int [of z zs'] by simp
qed

section \<open>Properties of processAirQualityData\<close>

subsection \<open>Property writes\<close>

lemma map_of_setProperty: "map_of (setProperty k v al) = (map_of al)(k \<mapsto> v)"
  by (induction al) (auto simp: fun_eq_iff)

lemma keys_setProperty:
  "map fst (setProperty k v al) = (if k \<in> set (map fst al) then map fst al else map fst al @ [k])"
  by (induction al) auto

lemma distinct_setProperty:
  "distinct (map fst al) \<Longrightarrow> distinct (map fst (setProperty k v al))"
  by (simp add: keys_setProperty)

lemma getProperty_Own: "map_of obj k = Some v \<Longrightarrow> getProperty obj k = Own v"
  by (simp add: getProperty_def)

lemma getProperty_None:
  "map_of obj k = None \<Longrightarrow>
   getProperty obj k = (if k \<in> set objectPrototypeKeys then Inherited else Absent)"
  by (simp add: getProperty_def)

lemma distinct_keys_as_map:
  "distinct (map fst al) \<Longrightarrow> al = map (\<lambda>k. (k, the (map_of al k))) (map fst al)"
proof (induction al)
  case Nil
  then show ?case by simp
next
  case (Cons p al)
  then have new: "fst p \<notin> set (map fst al)" and d: "distinct (map fst al)" by auto
  have "map_of (p # al) k = map_of al k" if "k \<in> set (map fst al)" for k
    using that new by (cases p) auto
  then have "map (\<lambda>k. (k, the (map_of (p # al) k))) (map fst al)
           = map (\<lambda>k. (k, the (map_of al k))) (map fst al)"
    by (intro map_cong) simp_all
  with Cons.IH [OF d] show ?case by (cases p) simp
qed

subsection \<open>Grouping by station\<close>

lemma grouped_empty: "grouped [] []"
  by (simp add: grouped_def)

lemma grouped_lookup:
  "grouped sd seen \<Longrightarrow>
   map_of sd s = (if s \<in> station ` set seen then Some (ofStation seen s) else None)"
  by (simp add: grouped_def)

lemma getProperty_grouped:
  "grouped sd seen \<Longrightarrow>
   getProperty sd s =
     (if s \<in> station ` set seen then Own (ofStation seen s)
      else if s \<in> set objectPrototypeKeys then Inherited else Absent)"
  by (simp add: getProperty_def grouped_lookup)

lemma ofStation_snoc:
  "ofStation (seen @ [item]) s
   = (if station item = s then ofStation seen s @ [item] else ofStation seen s)"
  by (simp add: ofStation_def)

lemma ofStation_unseen: "s \<notin> station ` set seen \<Longrightarrow> ofStation seen s = []"
  by (auto simp: ofStation_def filter_empty_conv image_iff)

lemma groupByStation_Cons:
  "groupByStation sd (item # items) =
     (if getProperty sd (station item) = Inherited then Inl TypeError
      else groupByStation (pushItem sd item) items)"
  by (simp add: pushItem_def split: property.splits)

lemma grouped_step:
  assumes g: "grouped sd seen"
    and ok: "getProperty sd (station item) \<noteq> Inherited"
  shows "grouped (pushItem sd item) (seen @ [item])"
proof -
  have d: "distinct (map fst (pushItem sd item))"
    using g by (simp add: pushItem_def grouped_def distinct_setProperty)
  have "map_of (pushItem sd item) s
      = (if s \<in> station ` set (seen @ [item]) then Some (ofStation (seen @ [item]) s) else None)"
    for s
  proof (cases "s = station item")
    case True
    show ?thesis
    proof (cases "station item \<in> station ` set seen")
      case True
      with \<open>s = station item\<close> show ?thesis
        by (simp add: pushItem_def map_of_setProperty getProperty_grouped [OF g] ofStation_snoc)
    next
      case False
      with ok have "getProperty sd (station item) = Absent"
        by (simp add: getProperty_grouped [OF g] split: if_splits)
      with False \<open>s = station item\<close> show ?thesis
        by (simp add: pushItem_def map_of_setProperty ofStation_snoc ofStation_unseen)
    qed
  next
    case False
    then show ?thesis
      by (simp add: pushItem_def map_of_setProperty grouped_lookup [OF g] ofStation_snoc)
  qed
  with d show ?thesis by (simp add: grouped_def)
qed

lemma groupByStation_grouped:
  "grouped sd seen \<Longrightarrow> groupByStation sd items = Inr sd' \<Longrightarrow> grouped sd' (seen @ items)"
proof (induction items arbitrary: sd seen)
  case Nil
  then show ?case by simp
next
  case (Cons item items)
  from Cons.prems(2) have ok: "getProperty sd (station item) \<noteq> Inherited"
    and run: "groupByStation (pushItem sd item) items = Inr sd'"
    by (simp_all add: groupByStation_Cons del: groupByStation.simps split: if_splits)
  from Cons.IH [OF grouped_step [OF Cons.prems(1) ok] run] show ?case by simp
qed

lemma groupByStation_returns:
  "grouped sd seen \<Longrightarrow>
   (\<exists>sd'. groupByStation sd items = Inr sd')
     \<longleftrightarrow> (\<forall>item \<in> set items. station item \<in> station ` set seen
                                  \<or> station item \<notin> set objectPrototypeKeys)"
proof (induction items arbitrary: sd seen)
  case Nil
  then show ?case by simp
next
  case (Cons item items)
  have inh: "getProperty sd (station item) = Inherited
      \<longleftrightarrow> \<not> (station item \<in> station ` set seen \<or> station item \<notin> set objectPrototypeKeys)"
    by (simp add: getProperty_grouped [OF Cons.prems])
  show ?case
  proof (cases "getProperty sd (station item) = Inherited")
    case True
    with inh show ?thesis by (simp add: groupByStation_Cons del: groupByStation.simps)
  next
    case False
    have "(\<exists>sd'. groupByStation (pushItem sd item) items = Inr sd')
        \<longleftrightarrow> (\<forall>i \<in> set items. station i \<in> station ` set (seen @ [item])
                                \<or> station i \<notin> set objectPrototypeKeys)"
      by (rule Cons.IH [OF grouped_step [OF Cons.prems False]])
    also have "\<dots> \<longleftrightarrow> (\<forall>i \<in> set items. station i \<in> station ` set seen
                                \<or> station i \<notin> set objectPrototypeKeys)"
    proof (intro ball_cong refl)
      fix i
      from False inh
      have "station item \<in> station ` set seen \<or> station item \<notin> set objectPrototypeKeys"
        by simp
      then show "station i \<in> station ` set (seen @ [item]) \<or> station i \<notin> set objectPrototypeKeys
          \<longleftrightarrow> station i \<in> station ` set seen \<or> station i \<notin> set objectPrototypeKeys"
        by (cases "station i = station item") auto
    qed
    finally show ?thesis using False inh by (simp add: groupByStation_Cons del: groupByStation.simps)
  qed
qed

lemma sum_list_indicator:
  "distinct ks \<Longrightarrow> a \<in> set ks \<Longrightarrow> (\<Sum>k\<leftarrow>ks. if a = k then 1 else 0) = (1::nat)"
proof (induction ks)
  case Nil
  then show ?case by simp
next
  case (Cons k ks)
  show ?case
  proof (cases "a = k")
    case True
    with Cons.prems have "a \<notin> set ks" by simp
    then have "(\<Sum>k\<leftarrow>ks. if a = k then 1 else 0) = (0::nat)"
      by (induction ks) auto
    with True show ?thesis by simp
  next
    case False
    with Cons show ?thesis by simp
  qed
qed

lemma sum_length_ofStation:
  "distinct ks \<Longrightarrow> station ` set data \<subseteq> set ks \<Longrightarrow>
   (\<Sum>k\<leftarrow>ks. length (ofStation data k)) = length data"
proof (induction data)
  case Nil
  then show ?case by (simp add: ofStation_def)
next
  case (Cons item data)
  have "(\<Sum>k\<leftarrow>ks. length (ofStation (item # data) k))
      = (\<Sum>k\<leftarrow>ks. (if station item = k then 1 else 0) + length (ofStation data k))"
    by (intro arg_cong [where f = sum_list] map_cong) (simp_all add: ofStation_def)
  also have "\<dots> = (\<Sum>k\<leftarrow>ks. if station item = k then 1 else 0)
                  + (\<Sum>k\<leftarrow>ks. length (ofStation data k))"
    by (simp add: sum_list_addf)
  also have "\<dots> = 1 + length data"
    using Cons by (simp add: sum_list_indicator)
  finally show ?case by simp
qed

lemma grouped_keys: "grouped sd seen \<Longrightarrow> set (map fst sd) = station ` set seen"
proof -
  assume g: "grouped sd seen"
  have "set (map fst sd) = dom (map_of sd)"
    by (simp add: dom_map_of_conv_image_fst)
  also have "\<dots> = station ` set seen"
    by (auto simp: dom_def grouped_lookup [OF g] split: if_splits)
  finally show ?thesis .
qed

lemma grouped_total:
  assumes g: "grouped sd seen"
  shows "sum_list (map (\<lambda>p. length (snd p)) sd) = length seen"
proof -
  have d: "distinct (map fst sd)" using g by (simp add: grouped_def)
  have each: "snd p = ofStation seen (fst p)" if "p \<in> set sd" for p
  proof -
    have "map_of sd (fst p) = Some (snd p)"
      using that d by (intro map_of_is_SomeI) simp_all
    then show ?thesis
      by (simp add: grouped_lookup [OF g] split: if_splits)
  qed
  have "sum_list (map (\<lambda>p. length (snd p)) sd)
      = (\<Sum>k\<leftarrow>map fst sd. length (ofStation seen k))"
    unfolding map_map comp_def
    by (intro arg_cong [where f = sum_list] map_cong refl) (simp add: each)
  also have "\<dots> = length seen"
    using grouped_keys [OF g] by (intro sum_length_ofStation [OF d]) simp
  finally show ?thesis .
qed

lemma process_returns_grouped:
  assumes "processAirQualityData data = Inr res"
  shows "grouped (stations res) data"
proof (cases "data = []")
  case True
  with assms show ?thesis by (auto simp: processAirQualityData_def grouped_def)
next
  case False
  with assms obtain sd where run: "groupByStation [] data = Inr sd" and "stations res = sd"
    by (auto simp: processAirQualityData_def split: sum.splits)
  with groupByStation_grouped [OF grouped_empty run] show ?thesis by simp
qed

text \<open>
  Whenever the call returns, \<open>stations\<close> is a partition of the input by station: its
  keys are the stations of the input, each once; the group of a station is the
  observations of the input with that station, missing-valued ones too, in input order
  (so every observation is in the group of its own station and in no other); and the
  groups together have as many observations as the input.
\<close>

lemma stations_partition:
  assumes "processAirQualityData data = Inr res"
  shows "distinct (map fst (stations res))
       \<and> set (map fst (stations res)) = station ` set data
       \<and> (\<forall>s. map_of (stations res) s
               = (if s \<in> station ` set data then Some (ofStation data s) else None))
       \<and> sum_list (map (\<lambda>p. length (snd p)) (stations res)) = length data"
proof -
  note g = process_returns_grouped [OF assms]
  from g grouped_keys [OF g] grouped_total [OF g] show ?thesis
    by (simp add: grouped_def)
qed

text \<open>The call returns exactly when no station is the name of an inherited property.\<close>

lemma process_returns_iff:
  "(\<exists>res. processAirQualityData data = Inr res)
   \<longleftrightarrow> (\<forall>item \<in> set data. station item \<notin> set objectPrototypeKeys)"
proof (cases "data = []")
  case True
  then show ?thesis by (simp add: processAirQualityData_def)
next
  case False
  have "(\<exists>res. processAirQualityData data = Inr res) \<longleftrightarrow> (\<exists>sd. groupByStation [] data = Inr sd)"
    using False by (auto simp: processAirQualityData_def split: sum.splits)
  also have "\<dots> \<longleftrightarrow> (\<forall>item \<in> set data. station item \<notin> set objectPrototypeKeys)"
    using groupByStation_returns [OF grouped_empty, of data] by simp
  finally show ?thesis .
qed

text \<open>
  C10 at an input of one observation whose station is \<open>constructor\<close>: the read
  \<open>stationData[item.station]\<close> gives the inherited function, which is truthy, and the
  call of its \<open>push\<close> raises TypeError; there is no \<open>stations\<close> result in which the
  observation could appear.
\<close>

theorem process_raises_on_inherited_station:
  "processAirQualityData
     [\<lparr>date = ''2025-03-01'', hour = ''08'', value' = Some (Fin 10), rawValue = ''10'',
       station = ''constructor'', parameter = ''o3''\<rparr>]
   = Inl TypeError"
  by (simp add: processAirQualityData_def getProperty_def objectPrototypeKeys_def)

subsection \<open>Hourly averages\<close>

lemma hourKey_has_space: "CHR '' '' \<in> set (hourKey item)"
  by (simp add: hourKey_def)

lemma spaced_not_inherited: "CHR '' '' \<in> set k \<Longrightarrow> k \<notin> set objectPrototypeKeys"
  by (auto simp: objectPrototypeKeys_def)

lemma valuesAt_append: "valuesAt (xs @ ys) k = valuesAt xs k @ valuesAt ys k"
  by (induction xs) (auto split: option.splits)

lemma valuesAt_nonempty: "valuesAt data k \<noteq> [] \<longleftrightarrow> k \<in> keysPresent data"
  by (induction data) (auto simp: keysPresent_def present_def split: option.splits)

lemma keysPresent_snoc:
  "keysPresent (seen @ [item])
   = (if value' item = None then keysPresent seen else insert (hourKey item) (keysPresent seen))"
  by (auto simp: keysPresent_def present_def)

lemma js_sum_snoc: "vs \<noteq> [] \<Longrightarrow> js_sum (vs @ [v]) = js_add (js_sum vs) v"
  by (cases vs) simp_all

lemma summed_lookup:
  "summed acc seen \<Longrightarrow>
   map_of acc k = (if k \<in> keysPresent seen
                   then Some (js_sum (valuesAt seen k), length (valuesAt seen k)) else None)"
  by (simp add: summed_def)

lemma summed_empty: "summed [] []"
  by (simp add: summed_def keysPresent_def present_def)

lemma summed_skip:
  assumes s: "summed acc seen" and v: "value' item = None"
  shows "summed acc (seen @ [item])"
  using s v by (simp add: summed_def keysPresent_snoc valuesAt_append)

lemma summed_step:
  assumes s: "summed acc seen" and v: "value' item = Some x"
  shows "summed (setProperty (hourKey item)
                   (case getProperty acc (hourKey item) of
                      Own e \<Rightarrow> (js_add (fst e) x, snd e + 1)
                    | _ \<Rightarrow> (x, 1)) acc)
                (seen @ [item])"
    (is "summed ?acc' _")
proof -
  have d: "distinct (map fst ?acc')"
    using s by (simp add: summed_def distinct_setProperty)
  have here: "valuesAt [item] k = (if hourKey item = k then [x] else [])" for k
    using v by simp
  have "map_of ?acc' k
      = (if k \<in> keysPresent (seen @ [item])
         then Some (js_sum (valuesAt (seen @ [item]) k), length (valuesAt (seen @ [item]) k))
         else None)" for k
  proof (cases "k = hourKey item")
    case False
    then show ?thesis
      using v by (simp add: map_of_setProperty summed_lookup [OF s] keysPresent_snoc
          valuesAt_append here)
  next
    case True
    show ?thesis
    proof (cases "hourKey item \<in> keysPresent seen")
      case True
      then have "valuesAt seen (hourKey item) \<noteq> []"
        by (simp add: valuesAt_nonempty)
      moreover from True have "getProperty acc (hourKey item)
          = Own (js_sum (valuesAt seen (hourKey item)), length (valuesAt seen (hourKey item)))"
        by (simp add: getProperty_Own summed_lookup [OF s])
      ultimately show ?thesis
        using v \<open>k = hourKey item\<close>
        by (simp add: map_of_setProperty keysPresent_snoc valuesAt_append here js_sum_snoc)
    next
      case False
      then have "valuesAt seen (hourKey item) = []"
        using valuesAt_nonempty [of seen "hourKey item"] by simp
      moreover from False have "getProperty acc (hourKey item) = Absent"
        by (simp add: getProperty_None summed_lookup [OF s] spaced_not_inherited
            hourKey_has_space)
      ultimately show ?thesis
        using v \<open>k = hourKey item\<close>
        by (simp add: map_of_setProperty keysPresent_snoc valuesAt_append here)
    qed
  qed
  with d show ?thesis by (simp add: summed_def)
qed

lemma getProperty_key_not_inherited:
  "summed acc seen \<Longrightarrow> getProperty acc (hourKey item) \<noteq> Inherited"
  by (simp add: getProperty_def spaced_not_inherited hourKey_has_space split: option.splits)

lemma accumulate_summed: "summed acc seen \<Longrightarrow> summed (accumulate acc items) (seen @ items)"
proof (induction items arbitrary: acc seen)
  case Nil
  then show ?case by simp
next
  case (Cons item items)
  show ?case
  proof (cases "value' item")
    case None
    from Cons.IH [OF summed_skip [OF Cons.prems None]] None show ?thesis by simp
  next
    case (Some x)
    let ?acc' = "setProperty (hourKey item)
        (case getProperty acc (hourKey item) of
           Own e \<Rightarrow> (js_add (fst e) x, snd e + 1)
         | _ \<Rightarrow> (x, 1)) acc"
    have "accumulate acc (item # items) = accumulate ?acc' items"
      using Some getProperty_key_not_inherited [OF Cons.prems, of item]
      by (simp split: property.splits)
    with Cons.IH [OF summed_step [OF Cons.prems Some]] show ?thesis by simp
  qed
qed

lemma mset_insertBy: "mset (insertBy cmp x ys) = add_mset x (mset ys)"
  by (induction ys) auto

lemma mset_foldl_insertBy:
  "mset (foldl (\<lambda>acc x. insertBy cmp x acc) ys xs) = mset ys + mset xs"
  by (induction xs arbitrary: ys) (auto simp: mset_insertBy)

lemma mset_sortBy: "mset (sortBy cmp xs) = mset xs"
  by (simp add: sortBy_def mset_foldl_insertBy)

lemma summed_averages:
  assumes s: "summed acc data"
  shows "mset (map mkAverage acc) = image_mset (averageAt data) (mset_set (keysPresent data))"
proof -
  have d: "distinct (map fst acc)" using s by (simp add: summed_def)
  have keys: "set (map fst acc) = keysPresent data"
  proof -
    have "set (map fst acc) = dom (map_of acc)"
      by (simp add: dom_map_of_conv_image_fst)
    also have "\<dots> = keysPresent data"
      by (auto simp: dom_def summed_lookup [OF s] split: if_splits)
    finally show ?thesis .
  qed
  have "map mkAverage acc = map mkAverage (map (\<lambda>k. (k, the (map_of acc k))) (map fst acc))"
    using distinct_keys_as_map [OF d] by simp
  also have "\<dots> = map (\<lambda>k. mkAverage (k, the (map_of acc k))) (map fst acc)"
    by simp
  also have "\<dots> = map (averageAt data) (map fst acc)"
  proof (rule map_cong [OF refl])
    fix k assume "k \<in> set (map fst acc)"
    then have "k \<in> keysPresent data" using keys by simp
    then show "mkAverage (k, the (map_of acc k)) = averageAt data k"
      by (simp add: summed_lookup [OF s] mkAverage_def averageAt_def)
  qed
  finally have "map mkAverage acc = map (averageAt data) (map fst acc)" .
  then have "mset (map mkAverage acc) = mset (map (averageAt data) (map fst acc))"
    by (rule arg_cong)
  also have "\<dots> = image_mset (averageAt data) (mset (map fst acc))"
    by (rule mset_map)
  also have "mset (map fst acc) = mset_set (keysPresent data)"
    using mset_set_set [OF d] keys by simp
  finally show ?thesis .
qed

lemma splitSpace_plain: "CHR '' '' \<notin> set s \<Longrightarrow> splitSpace s = [s]"
  by (induction s) auto

lemma splitSpace_key:
  "CHR '' '' \<notin> set d \<Longrightarrow> CHR '' '' \<notin> set h \<Longrightarrow> splitSpace (d @ CHR '' '' # h) = [d, h]"
  by (induction d) (auto simp: splitSpace_plain)

lemma averageAt_key:
  "CHR '' '' \<notin> set (date item) \<Longrightarrow> CHR '' '' \<notin> set (hour item) \<Longrightarrow>
   avg_date (averageAt data (hourKey item)) = date item
   \<and> avg_hour (averageAt data (hourKey item)) = hour item"
  by (simp add: averageAt_def hourKey_def splitSpace_key piece_def)

lemma accumulate_present: "accumulate acc (present data) = accumulate acc data"
  by (induction data arbitrary: acc) (auto simp: present_def split: option.splits property.splits)

lemma valuesAt_length:
  "length (valuesAt data k) = length (filter (\<lambda>item. value' item \<noteq> None \<and> hourKey item = k) data)"
  by (induction data) (auto split: option.splits)

lemma hourKey_inj:
  assumes "CHR '' '' \<notin> set (date i)" "CHR '' '' \<notin> set (hour i)"
    and "CHR '' '' \<notin> set (date j)" "CHR '' '' \<notin> set (hour j)"
  shows "hourKey i = hourKey j \<longleftrightarrow> date i = date j \<and> hour i = hour j"
proof
  assume "hourKey i = hourKey j"
  then have "splitSpace (date i @ CHR '' '' # hour i) = splitSpace (date j @ CHR '' '' # hour j)"
    by (simp add: hourKey_def)
  with assms show "date i = date j \<and> hour i = hour j"
    by (simp add: splitSpace_key)
next
  assume "date i = date j \<and> hour i = hour j"
  then show "hourKey i = hourKey j" by (simp add: hourKey_def)
qed

lemma averageAt_int_mean:
  assumes "valuesAt data k = map (\<lambda>z. Fin (of_int z)) zs" "zs \<noteq> []"
    and "sum_list (map abs zs) < 2 ^ 53"
  shows "avg_value (averageAt data k)
         = toFixed1 (toDouble (of_int (sum_list zs) / real (length zs)))"
  using assms by (simp add: averageAt_def js_sum_int)

lemma process_averages:
  assumes "processAirQualityData data = Inr res"
  shows "hourlyAverages res = sortBy compareAverages (map mkAverage (accumulate [] data))"
proof (cases "data = []")
  case True
  with assms show ?thesis by (auto simp: processAirQualityData_def sortBy_def)
next
  case False
  with assms show ?thesis by (auto simp: processAirQualityData_def split: sum.splits)
qed

lemma process_present:
  assumes "processAirQualityData data = Inr res"
  shows "\<exists>res'. processAirQualityData (present data) = Inr res'
               \<and> hourlyAverages res' = hourlyAverages res"
proof -
  have "\<forall>item \<in> set data. station item \<notin> set objectPrototypeKeys"
    using assms process_returns_iff [of data] by blast
  then have "\<forall>item \<in> set (present data). station item \<notin> set objectPrototypeKeys"
    by (simp add: present_def)
  then obtain res' where r: "processAirQualityData (present data) = Inr res'"
    using process_returns_iff [of "present data"] by blast
  have "hourlyAverages res' = hourlyAverages res"
    unfolding process_averages [OF r] process_averages [OF assms] accumulate_present ..
  with r show ?thesis by blast
qed

text \<open>
  C6, as the code has it. Whenever processAirQualityData returns:
  \<^item> \<open>hourlyAverages\<close> holds exactly one entry for each key text (date, space, hour)
    under which some observation has a value, and no other entry: a key whose
    observations are all missing has none;
  \<^item> the observations without a value contribute nothing: the call on the observations
    that have a value returns the same \<open>hourlyAverages\<close>;
  \<^item> the \<open>stationCount\<close> of the entry of a key is the number of observations under
    the key that have a value, and is positive;
  \<^item> its value is \<open>toFixed(1)\<close> of the quotient by that number of the sum of their
    values, added from the left, the sum and the quotient being those of double
    arithmetic. When that quotient is finite and below \<open>10^21\<close> in magnitude the value
    is the double of a decimal with one digit after the dot that lies within one
    twentieth of the quotient. For whole readings whose magnitudes add up to less than
    \<open>2^53\<close> the sum is exact and the quotient is the double nearest to the
    arithmetic mean;
  \<^item> for observations whose date and hour hold no space, two keys are equal exactly when
    the dates and the hours are, and the entry carries that date and that hour.
\<close>

theorem hourly_averages_of_present_values:
  assumes "processAirQualityData data = Inr res"
  shows "mset (hourlyAverages res) = image_mset (averageAt data) (mset_set (keysPresent data))
       \<and> (\<exists>res'. processAirQualityData (present data) = Inr res'
                  \<and> hourlyAverages res' = hourlyAverages res)
       \<and> (\<forall>k \<in> keysPresent data.
             stationCount (averageAt data k)
               = length (filter (\<lambda>item. value' item \<noteq> None \<and> hourKey item = k) data)
             \<and> 0 < stationCount (averageAt data k)
             \<and> avg_value (averageAt data k)
               = toFixed1 (js_div_count (js_sum (valuesAt data k)) (length (valuesAt data k))))
       \<and> (\<forall>k \<in> keysPresent data. \<forall>q.
             js_div_count (js_sum (valuesAt data k)) (length (valuesAt data k)) = Fin q
             \<and> \<bar>q\<bar> < 1000000000000000000000 \<longrightarrow>
             (\<exists>n. avg_value (averageAt data k) = toDouble (of_int n / 10)
                  \<and> \<bar>of_int n / 10 - q\<bar> \<le> 1 / 20))
       \<and> (\<forall>k zs. valuesAt data k = map (\<lambda>z. Fin (of_int z)) zs \<and> zs \<noteq> []
                  \<and> sum_list (map abs zs) < 2 ^ 53 \<longrightarrow>
             js_div_count (js_sum (valuesAt data k)) (length (valuesAt data k))
               = toDouble (of_int (sum_list zs) / real (length zs)))
       \<and> (\<forall>i \<in> set data. \<forall>j \<in> set data.
             CHR '' '' \<notin> set (date i) \<and> CHR '' '' \<notin> set (hour i)
             \<and> CHR '' '' \<notin> set (date j) \<and> CHR '' '' \<notin> set (hour j) \<longrightarrow>
             (hourKey i = hourKey j \<longleftrightarrow> date i = date j \<and> hour i = hour j)
             \<and> avg_date (averageAt data (hourKey i)) = date i
             \<and> avg_hour (averageAt data (hourKey i)) = hour i)"
proof -
  have s: "summed (accumulate [] data) data"
    using accumulate_summed [OF summed_empty, of data] by simp
  have "mset (hourlyAverages res) = mset (map mkAverage (accumulate [] data))"
    unfolding process_averages [OF assms] by (rule mset_sortBy)
  also note summed_averages [OF s]
  finally have "mset (hourlyAverages res)
      = image_mset (averageAt data) (mset_set (keysPresent data))" .
  moreover note process_present [OF assms]
  moreover have "\<forall>k \<in> keysPresent data.
      stationCount (averageAt data k)
        = length (filter (\<lambda>item. value' item \<noteq> None \<and> hourKey item = k) data)
      \<and> 0 < stationCount (averageAt data k)
      \<and> avg_value (averageAt data k)
        = toFixed1 (js_div_count (js_sum (valuesAt data k)) (length (valuesAt data k)))"
  proof (intro ballI)
    fix k assume "k \<in> keysPresent data"
    then have "valuesAt data k \<noteq> []" by (simp add: valuesAt_nonempty)
    then have "0 < length (valuesAt data k)" by simp
    then show "stationCount (averageAt data k)
        = length (filter (\<lambda>item. value' item \<noteq> None \<and> hourKey item = k) data)
      \<and> 0 < stationCount (averageAt data k)
      \<and> avg_value (averageAt data k)
        = toFixed1 (js_div_count (js_sum (valuesAt data k)) (length (valuesAt data k)))"
      using valuesAt_length [of data k] by (simp add: averageAt_def)
  qed
  moreover have "\<forall>k \<in> keysPresent data. \<forall>q.
      js_div_count (js_sum (valuesAt data k)) (length (valuesAt data k)) = Fin q
      \<and> \<bar>q\<bar> < 1000000000000000000000 \<longrightarrow>
      (\<exists>n. avg_value (averageAt data k) = toDouble (of_int n / 10)
           \<and> \<bar>of_int n / 10 - q\<bar> \<le> 1 / 20)"
    using toFixed1_nearest_tenth by (simp add: averageAt_def)
  moreover have "\<forall>k zs. valuesAt data k = map (\<lambda>z. Fin (of_int z)) zs \<and> zs \<noteq> []
           \<and> sum_list (map abs zs) < 2 ^ 53 \<longrightarrow>
      js_div_count (js_sum (valuesAt data k)) (length (valuesAt data k))
        = toDouble (of_int (sum_list zs) / real (length zs))"
    by (simp add: js_sum_int)
  moreover have "\<forall>i \<in> set data. \<forall>j \<in> set data.
      CHR '' '' \<notin> set (date i) \<and> CHR '' '' \<notin> set (hour i)
      \<and> CHR '' '' \<notin> set (date j) \<and> CHR '' '' \<notin> set (hour j) \<longrightarrow>
      (hourKey i = hourKey j \<longleftrightarrow> date i = date j \<and> hour i = hour j)
      \<and> avg_date (averageAt data (hourKey i)) = date i
      \<and> avg_hour (averageAt data (hourKey i)) = hour i"
    using hourKey_inj averageAt_key by blast
  ultimately show ?thesis by blast
qed

theorem hourly_averages_witness:
  "processAirQualityData hourReadings
   = Inr \<lparr>stations =
            [(''A'', [\<lparr>date = ''2025-03-01'', hour = ''08'', value' = Some (Fin 1),
                      rawValue = ''1'', station = ''A'', parameter = ''o3''\<rparr>,
                     \<lparr>date = ''2025-03-01'', hour = ''09'', value' = None,
                      rawValue = ''NR'', station = ''A'', parameter = ''o3''\<rparr>]),
             (''B'', [\<lparr>date = ''2025-03-01'', hour = ''08'', value' = Some (Fin 2),
                      rawValue = ''2'', station = ''B'', parameter = ''o3''\<rparr>]),
             (''C'', [\<lparr>date = ''2025-03-01'', hour = ''08'', value' = Some (Fin 2),
                      rawValue = ''2'', station = ''C'', parameter = ''o3''\<rparr>])],
          hourlyAverages =
            [\<lparr>avg_date = ''2025-03-01'', avg_hour = ''08'',
              avg_value = Fin (7656119366529843 / 4503599627370496), stationCount = 3\<rparr>]\<rparr>
   \<and> mset [\<lparr>avg_date = ''2025-03-01'', avg_hour = ''08'',
             avg_value = Fin (7656119366529843 / 4503599627370496), stationCount = 3\<rparr>]
     = image_mset (averageAt hourReadings) (mset_set (keysPresent hourReadings))
   \<and> keysPresent hourReadings = {''2025-03-01 08''}
   \<and> valuesAt hourReadings ''2025-03-01 08'' = map (\<lambda>z. Fin (of_int z)) [1, 2, 2]
   \<and> stationCount (averageAt hourReadings ''2025-03-01 08'') = 3
   \<and> js_div_count (js_sum (valuesAt hourReadings ''2025-03-01 08''))
        (length (valuesAt hourReadings ''2025-03-01 08''))
     = toDouble (of_int (sum_list [1, 2, 2]) / real (length [1, 2, 2 :: int]))
   \<and> toDouble (of_int (sum_list [1, 2, 2]) / real (length [1, 2, 2 :: int]))
     = Fin (7505999378950827 / 4503599627370496)
   \<and> (\<exists>n. avg_value (averageAt hourReadings ''2025-03-01 08'') = toDouble (of_int n / 10)
          \<and> \<bar>real_of_int n / 10 - 7505999378950827 / 4503599627370496\<bar> \<le> 1 / 20)
   \<and> toDouble (17 / 10) = Fin (7656119366529843 / 4503599627370496)"
  (is "?run = Inr ?res \<and> ?ms \<and> ?keys \<and> ?vals \<and> ?count \<and> ?mean \<and> ?quot \<and> ?tenth \<and> ?printed")
proof -
  have run: "?run = Inr ?res"
    by code_simp
  note all = hourly_averages_of_present_values [OF run]
  note entries = all [THEN conjunct1]
  note counts = all [THEN conjunct2, THEN conjunct2, THEN conjunct1, rule_format]
  note rounded = all [THEN conjunct2, THEN conjunct2, THEN conjunct2, THEN conjunct1,
      rule_format]
  note means = all [THEN conjunct2, THEN conjunct2, THEN conjunct2, THEN conjunct2,
      THEN conjunct1, rule_format]
  have keys: ?keys
    by (simp add: keysPresent_def present_def hourReadings_def hourKey_def)
  then have k: "''2025-03-01 08'' \<in> keysPresent hourReadings"
    by simp
  have vals: ?vals
    by (simp add: hourReadings_def hourKey_def)
  have num: "length (filter (\<lambda>item. value' item \<noteq> None \<and> hourKey item = ''2025-03-01 08'')
      hourReadings) = 3"
    by (simp add: hourReadings_def hourKey_def)
  have quot: ?quot and printed: ?printed
    by code_simp+
  have ms: ?ms
    using entries by simp
  have cnt: ?count
    using counts [OF k] num by simp
  have small: "sum_list (map abs [1, 2, 2 :: int]) < 2 ^ 53"
    by simp
  have mean: ?mean
    by (rule means) (intro conjI vals small, simp)
  have q: "js_div_count (js_sum (valuesAt hourReadings ''2025-03-01 08''))
      (length (valuesAt hourReadings ''2025-03-01 08''))
      = Fin (7505999378950827 / 4503599627370496)"
    unfolding mean by (rule quot)
  have tenth: ?tenth
    by (rule rounded [OF k]) (intro conjI q, simp)
  show ?thesis
    by (intro conjI run ms keys vals cnt mean quot tenth printed)
qed

text \<open>
  C6 as stated fails at two readings 0.3 and 0.4 of one hour (the cell texts 0.3 and
  0.4, read as doubles). Their sum in double arithmetic is the double below 0.7
  and half of it the double below 0.35, which \<open>toFixed(1)\<close> prints as 0.3: the value
  of the hourly average is the double of 0.3. The arithmetic mean of the two readings
  is above 0.35 and rounds to 0.4, and the value is more than 0.05 away from it.
\<close>

theorem mean_of_tenths_not_rounded:
  "toDouble (3 / 10) = Fin (5404319552844595 / 18014398509481984)
   \<and> toDouble (4 / 10) = Fin (3602879701896397 / 9007199254740992)
   \<and> processAirQualityData
       [\<lparr>date = ''2025-03-01'', hour = ''08'',
         value' = Some (Fin (5404319552844595 / 18014398509481984)),
         rawValue = ''0.3'', station = ''A'', parameter = ''co''\<rparr>,
        \<lparr>date = ''2025-03-01'', hour = ''08'',
         value' = Some (Fin (3602879701896397 / 9007199254740992)),
         rawValue = ''0.4'', station = ''B'', parameter = ''co''\<rparr>]
     = Inr \<lparr>stations =
              [(''A'', [\<lparr>date = ''2025-03-01'', hour = ''08'',
                        value' = Some (Fin (5404319552844595 / 18014398509481984)),
                        rawValue = ''0.3'', station = ''A'', parameter = ''co''\<rparr>]),
               (''B'', [\<lparr>date = ''2025-03-01'', hour = ''08'',
                        value' = Some (Fin (3602879701896397 / 9007199254740992)),
                        rawValue = ''0.4'', station = ''B'', parameter = ''co''\<rparr>])],
            hourlyAverages =
              [\<lparr>avg_date = ''2025-03-01'', avg_hour = ''08'',
                avg_value = Fin (5404319552844595 / 18014398509481984), stationCount = 2\<rparr>]\<rparr>
   \<and> tenths ((5404319552844595 / 18014398509481984 + 3602879701896397 / 9007199254740992) / 2)
     = 4
   \<and> toDouble (3 / 10) \<noteq> toDouble (4 / 10)
   \<and> 1 / 20 < \<bar>5404319552844595 / 18014398509481984
               - (5404319552844595 / 18014398509481984 + 3602879701896397 / 9007199254740992) / 2
                 :: real\<bar>"
  by code_simp

text \<open>
  The entries are keyed by the text (date, space, hour), which is cut at its spaces to
  give the date and the hour of the entry. When the hour of an observation holds a space
  the entry shows another hour: here the reading 5 of the hour \<open>08 x\<close> is reported for
  the hour 08, whose only observation is missing.
\<close>

lemma key_with_space_is_cut:
  "processAirQualityData
     [\<lparr>date = ''2025-03-01'', hour = ''08'', value' = None, rawValue = ''NR'',
       station = ''A'', parameter = ''o3''\<rparr>,
      \<lparr>date = ''2025-03-01'', hour = ''08 x'', value' = Some (Fin 5), rawValue = ''5'',
       station = ''B'', parameter = ''o3''\<rparr>]
   = Inr \<lparr>stations =
            [(''A'', [\<lparr>date = ''2025-03-01'', hour = ''08'', value' = None, rawValue = ''NR'',
                      station = ''A'', parameter = ''o3''\<rparr>]),
             (''B'', [\<lparr>date = ''2025-03-01'', hour = ''08 x'', value' = Some (Fin 5),
                      rawValue = ''5'', station = ''B'', parameter = ''o3''\<rparr>])],
          hourlyAverages =
            [\<lparr>avg_date = ''2025-03-01'', avg_hour = ''08'', avg_value = Fin 5,
              stationCount = 1\<rparr>]\<rparr>"
  by code_simp

section \<open>Properties of parseAirQualityHtml: the reads before the length check\<close>

text \<open>
  C1 fails on every input when no scope around the function binds \<open>tables\<close>, which is
  how the file stands: the read of line 64 raises ReferenceError before the length
  check and outside the \<open>try\<close> block, so the exception reaches the caller.
\<close>

theorem parse_raises_when_tables_unbound:
  "parseAirQualityHtml NotDeclared domParse now html parameter' year month specificDay
     specificHour specificStation = Inl ReferenceError"
  by (simp add: parseAirQualityHtml_def)

text \<open>
  C9 at a markup of 34 characters, with \<open>tables\<close> unbound as the file leaves it: the
  call raises ReferenceError at line 64 and never reaches the length check of line 69
  that would return the empty sequence.
\<close>

theorem short_markup_raises_when_tables_unbound:
  "length ''<table><tr><td>x</td></tr></table>'' < 100
   \<and> parseAirQualityHtml NotDeclared (\<lambda>h. [[[''x'']]])
       \<lparr>fullYear = 2025, monthIndex = 2, dayOfMonth = 5, hours = 10\<rparr>
       ''<table><tr><td>x</td></tr></table>'' ''o3'' ''2025'' ''03'' None None None
     = Inl ReferenceError"
  by (simp add: parseAirQualityHtml_def)

text \<open>
  Where the reads of lines 61 to 66 raise nothing the call returns a sequence, and a
  markup shorter than 100 characters gives the empty one whatever the document holds.
\<close>

lemma parse_returns:
  "debugPrelude outer = None \<Longrightarrow>
   \<exists>out. parseAirQualityHtml outer domParse now html parameter' year month specificDay
           specificHour specificStation = Inr out"
  by (simp add: parseAirQualityHtml_def split: sum.splits)

lemma short_markup_empty:
  "debugPrelude outer = None \<Longrightarrow> length html < 100 \<Longrightarrow>
   parseAirQualityHtml outer domParse now html parameter' year month specificDay
     specificHour specificStation = Inr []"
  by (simp add: parseAirQualityHtml_def)

section \<open>Properties of the row loop of parseAirQualityHtml\<close>

subsection \<open>The shape of the result\<close>

lemma processRow_passes:
  "rowPasses now year month specificDay specificHour fi hi cells rowDay h \<Longrightarrow>
   processRow now parameter' year month specificDay specificHour fi hi st cells
   = concat (map (emitCell parameter' year month rowDay (padStart2 (toStringNat (nat h))) cells) st)"
  by (simp add: rowPasses_def processRow_def)

lemma processRow_origin:
  assumes "item \<in> set (processRow now parameter' year month specificDay specificHour fi hi st cells)"
  shows "\<exists>rowDay h entry.
           rowPasses now year month specificDay specificHour fi hi cells rowDay h
           \<and> entry \<in> set st
           \<and> item \<in> set (emitCell parameter' year month rowDay
                             (padStart2 (toStringNat (nat h))) cells entry)"
proof (cases "rowDayOf specificDay fi cells")
  case None
  with assms show ?thesis by (simp add: processRow_def split: if_splits)
next
  case day: (Some rowDay)
  show ?thesis
  proof (cases "hourOf hi cells")
    case None
    with assms day show ?thesis by (simp add: processRow_def split: if_splits)
  next
    case (Some h)
    with assms day have p: "rowPasses now year month specificDay specificHour fi hi cells rowDay h"
      by (simp add: processRow_def rowPasses_def split: if_splits)
    with assms show ?thesis
      by (auto simp: processRow_passes [OF p])
  qed
qed

lemma parse_long:
  assumes "parseAirQualityHtml outer domParse now html parameter' year month specificDay
             specificHour specificStation = Inr out"
    and "100 \<le> length html"
    and "resolveLayout (domParse html) parameter' specificStation = Inr (Some l)"
  shows "out = concat (map (processRow now parameter' year month specificDay specificHour
                              (fechaIndex l) (horaIndex l) (stationIndices l))
                           (dataRows l))"
  using assms
  by (auto simp: parseAirQualityHtml_def tryBlock_def split: option.splits if_splits)

lemma parse_origin:
  assumes "parseAirQualityHtml outer domParse now html parameter' year month specificDay
             specificHour specificStation = Inr out"
    and "item \<in> set out"
  shows "\<exists>l cells. resolveLayout (domParse html) parameter' specificStation = Inr (Some l)
           \<and> cells \<in> set (dataRows l)
           \<and> item \<in> set (processRow now parameter' year month specificDay specificHour
                             (fechaIndex l) (horaIndex l) (stationIndices l) cells)"
  using assms
  by (auto simp: parseAirQualityHtml_def tryBlock_def split: option.splits if_splits sum.splits)

lemma emitCell_fields:
  "item \<in> set (emitCell parameter' year month rowDay formattedHour cells entry) \<Longrightarrow>
   date item = year @ ''-'' @ month @ ''-'' @ rowDay \<and> hour item = formattedHour
   \<and> station item = fst entry \<and> parameter item = parameter'"
  by (auto simp: emitCell_def Let_def split: if_splits jsnum.splits)

subsection \<open>Hours and days\<close>

lemma hours_formatted:
  "list_all (\<lambda>n. length (padStart2 (toStringNat n)) = 2
                  \<and> list_all isDigit (padStart2 (toStringNat n))
                  \<and> parseInt (padStart2 (toStringNat n)) = Some (int n)) [0 ..< 24]"
  by code_simp

lemma hour_formatted:
  assumes "n < 24"
  shows "length (padStart2 (toStringNat n)) = 2"
    and "list_all isDigit (padStart2 (toStringNat n))"
    and "parseInt (padStart2 (toStringNat n)) = Some (int n)"
proof -
  from assms have "n \<in> set [0 ..< 24]" by simp
  with hours_formatted show "length (padStart2 (toStringNat n)) = 2"
    and "list_all isDigit (padStart2 (toStringNat n))"
    and "parseInt (padStart2 (toStringNat n)) = Some (int n)"
    unfolding list_all_iff by blast+
qed

lemma isDigit_zero: "isDigit CHR ''0''"
  by (simp add: isDigit_def)

lemma padStart2_length: "2 \<le> length (padStart2 s)"
  by (simp add: padStart2_def)

lemma padStart2_digits: "list_all isDigit s \<Longrightarrow> list_all isDigit (padStart2 s)"
  by (auto simp: padStart2_def list_all_iff isDigit_zero)

lemma takeWhile_all: "list_all P (takeWhile P xs)"
  by (induction xs) simp_all

lemma matchDateAt_digits:
  "matchDateAt s = Some (g1, g2, g3) \<Longrightarrow>
   list_all isDigit g1 \<and> list_all isDigit g2 \<and> list_all isDigit g3"
  by (auto simp: matchDateAt_def Let_def takeWhile_all split: if_splits)

lemma matchDate_digits:
  "matchDate s = Some (g1, g2, g3) \<Longrightarrow>
   list_all isDigit g1 \<and> list_all isDigit g2 \<and> list_all isDigit g3"
  by (induction s) (auto split: option.splits dest: matchDateAt_digits)

lemma dayFromFecha_digits:
  "dayFromFecha cell = Some d \<Longrightarrow> list_all isDigit d \<and> 2 \<le> length d"
  by (auto simp: dayFromFecha_def padStart2_length padStart2_digits
      split: option.splits if_splits dest: matchDate_digits)

lemma dayOfFilter_length: "dayOfFilter specificDay = Some d \<Longrightarrow> 2 \<le> length d"
  by (auto simp: dayOfFilter_def padStart2_length split: option.splits if_splits)

lemma rowDayOf_shape:
  assumes "rowDayOf specificDay fi cells = Some d"
  shows "2 \<le> length d \<and> (list_all isDigit d \<or> dayOfFilter specificDay = Some d)"
proof -
  from assms consider
    (fecha) cell where "dayFromFecha cell = Some d"
    | (padded) "dayOfFilter specificDay = Some d"
    by (auto simp: rowDayOf_def Let_def dayOfFilter_def split: option.splits if_splits)
  then show ?thesis
  proof cases
    case fecha
    then show ?thesis using dayFromFecha_digits by blast
  next
    case padded
    then show ?thesis using dayOfFilter_length by blast
  qed
qed

subsection \<open>Hour and date of an emitted observation\<close>

text \<open>
  C7, as the code has it. Every observation of a returned result has an hour field that
  is the two-character, zero-padded text of an integer from 0 to 23, and a date field
  that is the year and the month as the caller gave them and a day text, joined by
  hyphens; the day text has two characters or more and is either all digits (read from
  the Fecha cell) or the \<open>specificDay\<close> filter padded to two characters. A data row
  whose hour cell gives no integer from 0 to 23 adds no observation.
\<close>

theorem emitted_hour_and_date:
  "(parseAirQualityHtml outer domParse now html parameter' year month specificDay
      specificHour specificStation = Inr out \<and> item \<in> set out \<longrightarrow>
      (\<exists>n < 24. hour item = padStart2 (toStringNat n) \<and> parseInt (hour item) = Some (int n))
      \<and> length (hour item) = 2 \<and> list_all isDigit (hour item)
      \<and> (\<exists>d. date item = year @ ''-'' @ month @ ''-'' @ d \<and> 2 \<le> length d
              \<and> (list_all isDigit d \<or> dayOfFilter specificDay = Some d)))
   \<and> ((\<forall>h. hourOf hi cells = Some h \<longrightarrow> h < 0 \<or> 23 < h) \<longrightarrow>
        processRow now parameter' year month specificDay specificHour fi hi st cells = [])"
proof (intro conjI impI)
  assume "\<forall>h. hourOf hi cells = Some h \<longrightarrow> h < 0 \<or> 23 < h"
  then show "processRow now parameter' year month specificDay specificHour fi hi st cells = []"
    by (auto simp: processRow_def split: option.splits)
next
  assume a: "parseAirQualityHtml outer domParse now html parameter' year month specificDay
      specificHour specificStation = Inr out \<and> item \<in> set out"
  then have r: "parseAirQualityHtml outer domParse now html parameter' year month specificDay
      specificHour specificStation = Inr out" and i: "item \<in> set out"
    by simp_all
  from parse_origin [OF r i] obtain l :: layout and row where
    o: "item \<in> set (processRow now parameter' year month specificDay specificHour
                       (fechaIndex l) (horaIndex l) (stationIndices l) row)"
    by blast
  from processRow_origin [OF o] obtain rowDay h entry where
    p: "rowPasses now year month specificDay specificHour (fechaIndex l) (horaIndex l) row rowDay h"
    and e: "item \<in> set (emitCell parameter' year month rowDay
                           (padStart2 (toStringNat (nat h))) row entry)"
    by blast
  from p have "0 \<le> h" "h \<le> 23"
    and d: "rowDayOf specificDay (fechaIndex l) row = Some rowDay"
    by (simp_all add: rowPasses_def)
  then have h: "nat h < 24" "int (nat h) = h"
    by linarith+
  from emitCell_fields [OF e] have f: "date item = year @ ''-'' @ month @ ''-'' @ rowDay"
    "hour item = padStart2 (toStringNat (nat h))"
    by simp_all
  from f(2) hour_formatted [OF h(1)]
  show "\<exists>n < 24. hour item = padStart2 (toStringNat n) \<and> parseInt (hour item) = Some (int n)"
    and "length (hour item) = 2" and "list_all isDigit (hour item)"
    using h(1) by auto
  from f(1) rowDayOf_shape [OF d]
  show "\<exists>d. date item = year @ ''-'' @ month @ ''-'' @ d \<and> 2 \<le> length d
          \<and> (list_all isDigit d \<or> dayOfFilter specificDay = Some d)"
    by blast
qed

theorem emitted_hour_and_date_witness:
  "parseAirQualityHtml NoLength (\<lambda>h. docMissing) clockLater markupMissing
     ''o3'' ''2025'' ''03'' None None None
   = Inr [\<lparr>date = ''2025-03-01'', hour = ''01'', value' = None, rawValue = ''NR'',
           station = ''MER'', parameter = ''o3''\<rparr>]
   \<and> (\<exists>n < 24. ''01'' = padStart2 (toStringNat n) \<and> parseInt ''01'' = Some (int n))
   \<and> (\<exists>d. ''2025-03-01'' = ''2025'' @ ''-'' @ ''03'' @ ''-'' @ d \<and> 2 \<le> length d
           \<and> (list_all isDigit d \<or> dayOfFilter None = Some d))
   \<and> hourOf 1 [''01/03/2025'', ''24'', ''5'', ''6''] = Some 24
   \<and> processRow clockLater ''o3'' ''2025'' ''03'' None None (Some 0) 1
        [(''ACO'', 2), (''MER'', 3)] [''01/03/2025'', ''24'', ''5'', ''6''] = []"
  (is "?run = Inr [?item] \<and> _")
proof -
  have run: "?run = Inr [?item]"
    by code_simp
  have hr: "hourOf 1 [''01/03/2025'', ''24'', ''5'', ''6''] = Some 24"
    by code_simp
  then have none: "\<forall>h. hourOf 1 [''01/03/2025'', ''24'', ''5'', ''6''] = Some h \<longrightarrow> h < 0 \<or> 23 < h"
    by simp
  from emitted_hour_and_date [of NoLength "\<lambda>h. docMissing" clockLater markupMissing
      "''o3''" "''2025''" "''03''" None None None "[?item]" ?item
      1 "[''01/03/2025'', ''24'', ''5'', ''6'']" "Some 0" "[(''ACO'', 2), (''MER'', 3)]"]
    run hr none
  show ?thesis by simp
qed

text \<open>
  C7 as stated fails on the date: a Fecha cell whose day has three digits gives a date
  that is not of the form YYYY-MM-DD.
\<close>

theorem emitted_date_not_iso:
  "parseAirQualityHtml NoLength (\<lambda>h. docBadDay) clockLater markupBadDay
     ''o3'' ''2025'' ''03'' None None None
   = Inr [\<lparr>date = ''2025-03-100'', hour = ''01'', value' = Some (Fin 12), rawValue = ''12'',
           station = ''ACO'', parameter = ''o3''\<rparr>]
   \<and> \<not> isIsoDate ''2025-03-100''"
  by code_simp

subsection \<open>Cells with a missing-data token\<close>

text \<open>
  C2, as the code has it. In a returned result of a markup of 100 characters or more,
  for every data row that passes the row filters and every station column of the Map
  that the row reaches: when the trimmed text of the cell is not empty and its
  lower-case form is one of the tokens, that cell adds exactly one observation, whose
  value is null, whose rawValue is the upper-case form of the trimmed text, and which
  carries the row's date and hour, the station name and the parameter; the observation
  is in the result. (A cell whose trimmed text is empty adds nothing: line 272 tests
  the text for truthiness before the token list is looked at.)
\<close>

theorem missing_token_cell:
  assumes "parseAirQualityHtml outer domParse now html parameter' year month specificDay
             specificHour specificStation = Inr out"
    and "100 \<le> length html"
    and "resolveLayout (domParse html) parameter' specificStation = Inr (Some l)"
    and "row \<in> set (dataRows l)"
    and "rowPasses now year month specificDay specificHour (fechaIndex l) (horaIndex l) row rowDay h"
    and "entry \<in> set (stationIndices l)"
    and "snd entry < length row"
    and "trim (row ! snd entry) \<noteq> []"
    and "toLowerCase (trim (row ! snd entry)) \<in> set missingTokens"
  shows "emitCell parameter' year month rowDay (padStart2 (toStringNat (nat h))) row entry
         = [\<lparr>date = year @ ''-'' @ month @ ''-'' @ rowDay,
              hour = padStart2 (toStringNat (nat h)),
              value' = None, rawValue = toUpperCase (trim (row ! snd entry)),
              station = fst entry, parameter = parameter'\<rparr>]
       \<and> \<lparr>date = year @ ''-'' @ month @ ''-'' @ rowDay,
            hour = padStart2 (toStringNat (nat h)),
            value' = None, rawValue = toUpperCase (trim (row ! snd entry)),
            station = fst entry, parameter = parameter'\<rparr> \<in> set out
       \<and> (trim (row' ! snd entry') = [] \<longrightarrow>
            emitCell parameter' year month rowDay' formattedHour row' entry' = [])"
proof -
  have empty: "trim (row' ! snd entry') = [] \<longrightarrow>
      emitCell parameter' year month rowDay' formattedHour row' entry' = []"
    by (simp add: emitCell_def)
  have cell: "emitCell parameter' year month rowDay (padStart2 (toStringNat (nat h))) row entry
      = [\<lparr>date = year @ ''-'' @ month @ ''-'' @ rowDay,
           hour = padStart2 (toStringNat (nat h)),
           value' = None, rawValue = toUpperCase (trim (row ! snd entry)),
           station = fst entry, parameter = parameter'\<rparr>]"
    using assms(7-9) by (simp add: emitCell_def)
  have "set (emitCell parameter' year month rowDay (padStart2 (toStringNat (nat h))) row entry)
      \<subseteq> set (processRow now parameter' year month specificDay specificHour
                 (fechaIndex l) (horaIndex l) (stationIndices l) row)"
    unfolding processRow_passes [OF assms(5)] using assms(6) by auto
  also have "\<dots> \<subseteq> set out"
    unfolding parse_long [OF assms(1-3)] using assms(4) by auto
  finally show ?thesis using cell empty by simp
qed

theorem missing_token_cell_witness:
  "parseAirQualityHtml NoLength (\<lambda>h. docMissing) clockLater markupMissing
     ''o3'' ''2025'' ''03'' None None None
   = Inr [\<lparr>date = ''2025-03-01'', hour = ''01'', value' = None, rawValue = ''NR'',
           station = ''MER'', parameter = ''o3''\<rparr>]
   \<and> 100 \<le> length markupMissing
   \<and> resolveLayout docMissing ''o3'' None
     = Inr (Some \<lparr>fechaIndex = Some 0, horaIndex = 1,
                  stationIndices = [(''ACO'', 2), (''MER'', 3)],
                  dataRows = [[''01/03/2025'', ''1'', [], ''NR''],
                              [''01/03/2025'', ''24'', ''5'', ''6'']]\<rparr>)
   \<and> rowPasses clockLater ''2025'' ''03'' None None (Some 0) 1
       [''01/03/2025'', ''1'', [], ''NR''] ''01'' 1
   \<and> toLowerCase (trim ''NR'') \<in> set missingTokens
   \<and> emitCell ''o3'' ''2025'' ''03'' ''01'' ''01'' [''01/03/2025'', ''1'', [], ''NR''] (''MER'', 3)
     = [\<lparr>date = ''2025-03-01'', hour = ''01'', value' = None, rawValue = ''NR'',
         station = ''MER'', parameter = ''o3''\<rparr>]
   \<and> trim ([''01/03/2025'', ''1'', [], ''NR''] ! snd (''ACO'', 2 :: nat)) = []
   \<and> emitCell ''o3'' ''2025'' ''03'' ''01'' ''01'' [''01/03/2025'', ''1'', [], ''NR''] (''ACO'', 2) = []"
  (is "?run = Inr [?item] \<and> _ \<and> ?lay = Inr (Some ?l) \<and> ?pass \<and> ?tok \<and> _")
proof -
  have run: "?run = Inr [?item]" by code_simp
  have long: "100 \<le> length markupMissing" by code_simp
  have lay: "resolveLayout ((\<lambda>h. docMissing) markupMissing) ''o3'' None = Inr (Some ?l)"
    by code_simp
  have row: "[''01/03/2025'', ''1'', [], ''NR''] \<in> set (dataRows ?l)" by simp
  have pass: "rowPasses clockLater ''2025'' ''03'' None None (fechaIndex ?l) (horaIndex ?l)
      [''01/03/2025'', ''1'', [], ''NR''] ''01'' 1"
    by code_simp
  have entry: "(''MER'', 3) \<in> set (stationIndices ?l)" by simp
  have reach: "snd (''MER'', 3 :: nat) < length [''01/03/2025'', ''1'', [], ''NR'']" by simp
  have nonempty: "trim ([''01/03/2025'', ''1'', [], ''NR''] ! snd (''MER'', 3 :: nat)) \<noteq> []"
    by code_simp
  have tok: "toLowerCase (trim ([''01/03/2025'', ''1'', [], ''NR''] ! snd (''MER'', 3 :: nat)))
      \<in> set missingTokens"
    by code_simp
  have fh: "padStart2 (toStringNat (nat 1)) = ''01''" by code_simp
  have up: "toUpperCase (trim ([''01/03/2025'', ''1'', [], ''NR''] ! snd (''MER'', 3 :: nat))) = ''NR''"
    by code_simp
  have tok': ?tok by code_simp
  have blank: "trim ([''01/03/2025'', ''1'', [], ''NR''] ! snd (''ACO'', 2 :: nat)) = []"
    by code_simp
  note cell = missing_token_cell [OF run long lay row pass entry reach nonempty tok,
      of "[''01/03/2025'', ''1'', [], ''NR'']" "(''ACO'', 2)" "''01''" "''01''"]
  from cell [unfolded fh up]
  have "emitCell ''o3'' ''2025'' ''03'' ''01'' ''01'' [''01/03/2025'', ''1'', [], ''NR''] (''MER'', 3)
      = [?item]"
    by simp
  moreover from cell blank
  have "emitCell ''o3'' ''2025'' ''03'' ''01'' ''01'' [''01/03/2025'', ''1'', [], ''NR''] (''ACO'', 2) = []"
    by blast
  ultimately show ?thesis
    using run long lay pass tok' blank by simp
qed

text \<open>
  C2 as stated fails for the first token of the list, the empty string: the cell of
  station ACO in the first data row is empty, the row passes the filters, and the cell
  adds no observation; the result holds the observation of station MER only.
\<close>

theorem empty_cell_emits_nothing:
  "[''01/03/2025'', ''1'', [], ''NR''] ! 2 = []
   \<and> toLowerCase (trim []) \<in> set missingTokens
   \<and> resolveLayout docMissing ''o3'' None
     = Inr (Some \<lparr>fechaIndex = Some 0, horaIndex = 1,
                  stationIndices = [(''ACO'', 2), (''MER'', 3)],
                  dataRows = [[''01/03/2025'', ''1'', [], ''NR''],
                              [''01/03/2025'', ''24'', ''5'', ''6'']]\<rparr>)
   \<and> rowPasses clockLater ''2025'' ''03'' None None (Some 0) 1
       [''01/03/2025'', ''1'', [], ''NR''] ''01'' 1
   \<and> emitCell ''o3'' ''2025'' ''03'' ''01'' ''01'' [''01/03/2025'', ''1'', [], ''NR''] (''ACO'', 2) = []
   \<and> parseAirQualityHtml NoLength (\<lambda>h. docMissing) clockLater markupMissing
       ''o3'' ''2025'' ''03'' None None None
     = Inr [\<lparr>date = ''2025-03-01'', hour = ''01'', value' = None, rawValue = ''NR'',
             station = ''MER'', parameter = ''o3''\<rparr>]"
  by code_simp

subsection \<open>Rows without a day\<close>

lemma rowDayOf_no_fecha: "\<not> truthy specificDay \<Longrightarrow> rowDayOf specificDay None cells = None"
  by (cases specificDay) (simp_all add: rowDayOf_def dayOfFilter_def)

lemma processRow_no_day:
  "rowDayOf specificDay fi cells = None \<Longrightarrow>
   processRow now parameter' year month specificDay specificHour fi hi st cells = []"
  by (simp add: processRow_def)

text \<open>
  C5, as the code has it. When the header row of the selected table has no Fecha column
  and no \<open>specificDay\<close> is supplied, no data row has a day: the code looks for no day
  in the text of the document and has no default day, line 219 skips every row, and a
  returned result is empty.
\<close>

theorem rows_without_day_are_skipped:
  assumes "parseAirQualityHtml outer domParse now html parameter' year month specificDay
             specificHour specificStation = Inr out"
    and "\<not> truthy specificDay"
    and "\<forall>l. resolveLayout (domParse html) parameter' specificStation = Inr (Some l)
             \<longrightarrow> fechaIndex l = None"
  shows "out = [] \<and> rowDayOf specificDay None cells = None"
proof -
  have "out = []"
  proof (cases "resolveLayout (domParse html) parameter' specificStation")
    case (Inl e)
    with assms(1) show ?thesis
      by (simp add: parseAirQualityHtml_def tryBlock_def split: option.splits if_splits)
  next
    case (Inr found)
    show ?thesis
    proof (cases found)
      case None
      with Inr assms(1) show ?thesis
        by (simp add: parseAirQualityHtml_def tryBlock_def split: option.splits if_splits)
    next
      case (Some l)
      with Inr assms(3) have "fechaIndex l = None" by simp
      then have "processRow now parameter' year month specificDay specificHour
          (fechaIndex l) (horaIndex l) (stationIndices l) row = []" for row
        by (simp add: processRow_no_day rowDayOf_no_fecha [OF assms(2)])
      with Some Inr assms(1) show ?thesis
        by (auto simp: parseAirQualityHtml_def tryBlock_def split: option.splits if_splits)
    qed
  qed
  with rowDayOf_no_fecha [OF assms(2)] show ?thesis by simp
qed

theorem rows_without_day_witness:
  "parseAirQualityHtml NoLength (\<lambda>h. docNoFecha) clockLater markupNoFecha
     ''o3'' ''2025'' ''03'' None None None = Inr []
   \<and> \<not> truthy None
   \<and> resolveLayout docNoFecha ''o3'' None
     = Inr (Some \<lparr>fechaIndex = None, horaIndex = 0,
                  stationIndices = [(''ACO'', 1), (''MER'', 2)],
                  dataRows = [[''1'', ''12'', ''15''], [''2'', ''14'', ''16'']]\<rparr>)
   \<and> rowDayOf None None [''1'', ''12'', ''15''] = None"
  (is "?run = Inr [] \<and> _ \<and> ?lay = Inr (Some ?l) \<and> _")
proof -
  have run: "?run = Inr []" by code_simp
  have lay: "?lay = Inr (Some ?l)" by code_simp
  then have none: "\<forall>l. resolveLayout ((\<lambda>h. docNoFecha) markupNoFecha) ''o3'' None = Inr (Some l)
      \<longrightarrow> fechaIndex l = None"
    by simp
  have falsy: "\<not> truthy None" by simp
  from rows_without_day_are_skipped [OF run falsy none, of "[''1'', ''12'', ''15'']"] run lay
  show ?thesis by simp
qed

text \<open>
  C5 as stated fails: the markup holds the fragment \<open>Dia: 15\<close> and a table with a Hora
  column, two stations and two data rows with valid hours, but no Fecha column. Without
  \<open>specificDay\<close> the result is empty: neither the day 15 of the text nor a default day
  01 is used. With \<open>specificDay\<close> 15 the same rows give four observations.
\<close>

theorem no_day_fallback:
  "includes_str markupNoFecha ''Dia: 15''
   \<and> parseAirQualityHtml NoLength (\<lambda>h. docNoFecha) clockLater markupNoFecha
       ''o3'' ''2025'' ''03'' None None None = Inr []
   \<and> parseAirQualityHtml NoLength (\<lambda>h. docNoFecha) clockLater markupNoFecha
       ''o3'' ''2025'' ''03'' (Some ''15'') None None
     = Inr [\<lparr>date = ''2025-03-15'', hour = ''01'', value' = Some (Fin 12), rawValue = ''12'',
             station = ''ACO'', parameter = ''o3''\<rparr>,
            \<lparr>date = ''2025-03-15'', hour = ''01'', value' = Some (Fin 15), rawValue = ''15'',
             station = ''MER'', parameter = ''o3''\<rparr>,
            \<lparr>date = ''2025-03-15'', hour = ''02'', value' = Some (Fin 14), rawValue = ''14'',
             station = ''ACO'', parameter = ''o3''\<rparr>,
            \<lparr>date = ''2025-03-15'', hour = ''02'', value' = Some (Fin 16), rawValue = ''16'',
             station = ''MER'', parameter = ''o3''\<rparr>]"
  by code_simp

subsection \<open>The filter on future rows\<close>

lemma days_formatted:
  "list_all (\<lambda>n. parseInt (padStart2 (toStringNat n)) = Some (int n)) [0 ..< 32]"
  by code_simp

lemma day_text_number: "n \<le> 31 \<Longrightarrow> parseInt (padStart2 (toStringNat n)) = Some (int n)"
proof -
  assume "n \<le> 31"
  then have "n \<in> set [0 ..< 32]" by simp
  with days_formatted show ?thesis unfolding list_all_iff by blast
qed

lemma day_text_inj:
  assumes "a \<le> 31" "b \<le> 31"
  shows "padStart2 (toStringNat a) = padStart2 (toStringNat b) \<longleftrightarrow> a = b"
proof
  assume "padStart2 (toStringNat a) = padStart2 (toStringNat b)"
  then have "parseInt (padStart2 (toStringNat a)) = parseInt (padStart2 (toStringNat b))"
    by simp
  with assms show "a = b" by (simp add: day_text_number)
qed simp

lemma js_gt_same: "js_gt x x = False"
  by (cases x) simp_all

lemma processRow_future:
  "rowDayOf specificDay fi cells = Some rowDay \<Longrightarrow> hourOf hi cells = Some h \<Longrightarrow>
   skipFuture now year month rowDay h \<Longrightarrow>
   processRow now parameter' year month specificDay specificHour fi hi st cells = []"
  by (simp add: processRow_def)

text \<open>
  The filter on future rows, for a day text of two digits. Let the requested year parse
  to the current year and the requested month be the two-digit text of the current
  month, and let the day of a row be the two-digit text of a day number \<open>d\<close> (what the
  code makes of a day of one or two digits). Then the row is skipped as future exactly
  when \<open>d\<close> is after the current day, or \<open>d\<close> is the current day and the hour of the
  row is after the current hour. So a row strictly after the current day and hour adds
  no observation, and a row at the current day and hour is not skipped by this filter.
\<close>

theorem future_rows_skipped:
  assumes "parseInt year = Some (fullYear now)"
    and "month = currentMonth now"
    and "d \<le> 31" and "dayOfMonth now \<le> 31"
    and "rowDayOf specificDay fi cells = Some (padStart2 (toStringNat d))"
    and "hourOf hi cells = Some h"
  shows "(skipFuture now year month (padStart2 (toStringNat d)) h
           \<longleftrightarrow> dayOfMonth now < d \<or> (d = dayOfMonth now \<and> int (hours now) < h))
       \<and> (dayOfMonth now < d \<or> (d = dayOfMonth now \<and> int (hours now) < h) \<longrightarrow>
            processRow now parameter' year month specificDay specificHour fi hi st cells = [])
       \<and> (d = dayOfMonth now \<and> h = int (hours now) \<longrightarrow>
            \<not> skipFuture now year month (padStart2 (toStringNat d)) h)"
proof -
  have later: "js_gt (parseInt (padStart2 (toStringNat d))) (parseInt (currentDay now))
      \<longleftrightarrow> dayOfMonth now < d"
    using assms(3,4) by (simp add: currentDay_def day_text_number)
  have same: "padStart2 (toStringNat d) = currentDay now \<longleftrightarrow> d = dayOfMonth now"
    using assms(3,4) by (simp add: currentDay_def day_text_inj)
  have skip: "skipFuture now year month (padStart2 (toStringNat d)) h
      \<longleftrightarrow> dayOfMonth now < d \<or> (d = dayOfMonth now \<and> int (hours now) < h)"
    using assms(1,2) later same
    by (simp add: skipFuture_def isFutureDay_def isCurrentDay_def js_gt_same)
  moreover from skip have "dayOfMonth now < d \<or> (d = dayOfMonth now \<and> int (hours now) < h) \<longrightarrow>
      processRow now parameter' year month specificDay specificHour fi hi st cells = []"
    using processRow_future [OF assms(5,6)] by blast
  moreover from skip have "d = dayOfMonth now \<and> h = int (hours now) \<longrightarrow>
      \<not> skipFuture now year month (padStart2 (toStringNat d)) h"
    by auto
  ultimately show ?thesis by blast
qed

theorem future_rows_skipped_witness:
  "parseInt ''2025'' = Some (fullYear clockMarch5)
   \<and> ''03'' = currentMonth clockMarch5
   \<and> rowDayOf None (Some 0) [''05/03/2025'', ''23'', ''7''] = Some (padStart2 (toStringNat 5))
   \<and> hourOf 1 [''05/03/2025'', ''23'', ''7''] = Some 23
   \<and> skipFuture clockMarch5 ''2025'' ''03'' (padStart2 (toStringNat 5)) 23
   \<and> processRow clockMarch5 ''o3'' ''2025'' ''03'' None None (Some 0) 1 [(''ACO'', 2)]
        [''05/03/2025'', ''23'', ''7''] = []
   \<and> hourOf 1 [''05/03/2025'', ''10'', ''8''] = Some 10
   \<and> \<not> skipFuture clockMarch5 ''2025'' ''03'' (padStart2 (toStringNat 5)) 10
   \<and> parseAirQualityHtml NoLength (\<lambda>h. docToday) clockMarch5 markupToday
       ''o3'' ''2025'' ''03'' None None None
     = Inr [\<lparr>date = ''2025-03-05'', hour = ''10'', value' = Some (Fin 8), rawValue = ''8'',
             station = ''ACO'', parameter = ''o3''\<rparr>,
            \<lparr>date = ''2025-03-04'', hour = ''23'', value' = Some (Fin 10), rawValue = ''10'',
             station = ''ACO'', parameter = ''o3''\<rparr>]"
  (is "_ \<and> _ \<and> _ \<and> _ \<and> _ \<and> _ \<and> _ \<and> _ \<and> ?run")
proof -
  have run: ?run by code_simp
  have yr: "parseInt ''2025'' = Some (fullYear clockMarch5)" by code_simp
  have mo: "''03'' = currentMonth clockMarch5" by code_simp
  have d: "(5::nat) \<le> 31" by simp
  have c: "dayOfMonth clockMarch5 \<le> 31" by (simp add: clockMarch5_def)
  have today: "dayOfMonth clockMarch5 = 5" "hours clockMarch5 = 10"
    by (simp_all add: clockMarch5_def)
  have day23: "rowDayOf None (Some 0) [''05/03/2025'', ''23'', ''7'']
      = Some (padStart2 (toStringNat 5))"
    by code_simp
  have hr23: "hourOf 1 [''05/03/2025'', ''23'', ''7''] = Some 23" by code_simp
  have day10: "rowDayOf None (Some 0) [''05/03/2025'', ''10'', ''8'']
      = Some (padStart2 (toStringNat 5))"
    by code_simp
  have hr10: "hourOf 1 [''05/03/2025'', ''10'', ''8''] = Some 10" by code_simp
  note late = future_rows_skipped [OF yr mo d c day23 hr23,
      of "''o3''" None "[(''ACO'', 2)]"]
  note here = future_rows_skipped [OF yr mo d c day10 hr10,
      of "''o3''" None "[(''ACO'', 2)]"]
  from late have "skipFuture clockMarch5 ''2025'' ''03'' (padStart2 (toStringNat 5)) 23"
    and "processRow clockMarch5 ''o3'' ''2025'' ''03'' None None (Some 0) 1 [(''ACO'', 2)]
           [''05/03/2025'', ''23'', ''7''] = []"
    by (simp_all add: today)
  moreover from here
  have "\<not> skipFuture clockMarch5 ''2025'' ''03'' (padStart2 (toStringNat 5)) 10"
    by (simp add: today)
  ultimately show ?thesis
    using yr mo day23 hr23 hr10 run by blast
qed

text \<open>
  C8: a row of the requested current year and month whose day and hour are strictly
  after the current day and hour adds no observation. The code misses this for a day
  text of three characters. On 5 March 2025 at 10 hours, a row of the requested month
  whose Fecha cell reads 005/03/2025 and whose hour is 23 is after the current day and
  hour, yet its observation is in the result. The test for the current day compares
  texts (\<open>rowDay === currentDay\<close>), and the day text 005 is not the text 05 of the
  current day, so the hour is not looked at; the test for a future day beside it
  compares numbers (\<open>parseInt(rowDay) > parseInt(currentDay)\<close>), and as a number the
  day is not after the current day.
\<close>

theorem long_day_text_not_filtered:
  "parseInt ''2025'' = Some (fullYear clockMarch5)
   \<and> ''03'' = currentMonth clockMarch5
   \<and> rowDayOf None (Some 0) [''005/03/2025'', ''23'', ''7''] = Some ''005''
   \<and> parseInt ''005'' = Some (int (dayOfMonth clockMarch5))
   \<and> hourOf 1 [''005/03/2025'', ''23'', ''7''] = Some 23
   \<and> int (hours clockMarch5) < 23
   \<and> parseAirQualityHtml NoLength (\<lambda>h. docLongDay) clockMarch5 markupLongDay
       ''o3'' ''2025'' ''03'' None None None
     = Inr [\<lparr>date = ''2025-03-005'', hour = ''23'', value' = Some (Fin 7), rawValue = ''7'',
             station = ''ACO'', parameter = ''o3''\<rparr>]"
  by code_simp

end
